theory Spec2Isabelle
  imports Complex_Main
begin

section \<open>JavaScript numbers as far as the cursor arithmetic needs them\<close>

text \<open>
  The selection is stored as a quotient of two non-negative integers and later multiplied
  by an integer and rounded. A JavaScript number is modelled as an exact real or one of the
  two special values that a division by zero would produce; the rounding error of IEEE
  doubles is not modelled. \<open>Math.round\<close> rounds halves upwards.
\<close>

datatype jsnum = Num real | NaN | PosInf

definition js_div :: "nat \<Rightarrow> nat \<Rightarrow> jsnum" where
  "js_div a b =
     (if b = 0 then (if a = 0 then NaN else PosInf) else Num (real a / real b))"

fun js_times :: "jsnum \<Rightarrow> nat \<Rightarrow> jsnum" where
  "js_times (Num r) n = Num (r * real n)"
| "js_times NaN n = NaN"
| "js_times PosInf n = (if n = 0 then NaN else PosInf)"

fun js_round :: "jsnum \<Rightarrow> jsnum" where
  "js_round (Num r) = Num (of_int \<lfloor>r + 1 / 2\<rfloor>)"
| "js_round NaN = NaN"
| "js_round PosInf = PosInf"

fun js_min :: "jsnum \<Rightarrow> nat \<Rightarrow> jsnum" where
  "js_min (Num r) n = Num (min r (real n))"
| "js_min NaN n = NaN"
| "js_min PosInf n = Num (real n)"

text \<open>
  \<open>docSize > 0 ? from / docSize : 0\<close> in \<open>syncToMilkdown\<close>, and
  \<open>docLength > 0 ? cursorPos / docLength : 0\<close> in \<open>syncToCodeMirror\<close>.
\<close>

definition relativePos :: "nat \<Rightarrow> nat \<Rightarrow> jsnum" where
  "relativePos pos docSize = (if docSize > 0 then js_div pos docSize else Num 0)"

text \<open>
  \<open>Math.min(Math.round(relativeFrom * newDocSize), newDocSize)\<close>, the same expression
  for \<open>newTo\<close> and for \<open>newPos\<close>.
\<close>

definition newPos :: "jsnum \<Rightarrow> nat \<Rightarrow> jsnum" where
  "newPos relative newDocSize = js_min (js_round (js_times relative newDocSize)) newDocSize"

section \<open>Cursor translation of the SyncManager class\<close>

text \<open>\<open>String.prototype.split\<close> with a one-character separator: it never returns an empty array.\<close>

fun split_on :: "'a \<Rightarrow> 'a list \<Rightarrow> 'a list list" where
  "split_on sep [] = [[]]"
| "split_on sep (c # cs) =
     (if c = sep then [] # split_on sep cs
      else (case split_on sep cs of
              [] \<Rightarrow> [[c]]
            | l # ls \<Rightarrow> (c # l) # ls))"

text \<open>\<open>content.substring(0, position)\<close>: a negative end counts as 0, one beyond the end as the length.\<close>

definition substring0 :: "string \<Rightarrow> int \<Rightarrow> string" where
  "substring0 content position = take (nat position) content"

text \<open>
  \<open>lines[linesBeforeCursor - 1]?.length || 0\<close> is 0 when the index is out of range;
  the \<open>for\<close> loop is the fold over its index range.
\<close>

definition calculateApproximatePosition :: "string \<Rightarrow> int \<Rightarrow> int" where
  "calculateApproximatePosition content position =
     (let textBeforeCursor = substring0 content position;
          linesBeforeCursor = length (split_on CHR 0x0A textBeforeCursor);
          lastLineLength = length (last (split_on CHR 0x0A textBeforeCursor));
          lines = split_on CHR 0x0A content;
          approximatePos =
            fold (\<lambda>i acc. acc + int (length (lines ! i)) + 1)
                 [0 ..< min (linesBeforeCursor - 1) (length lines)] 0;
          approximatePos' =
            (if linesBeforeCursor \<le> length lines
             then approximatePos +
                    int (min lastLineLength
                          (if linesBeforeCursor - 1 < length lines
                           then length (lines ! (linesBeforeCursor - 1)) else 0))
             else approximatePos)
      in min approximatePos' (int (length content)))"

section \<open>Exceptions, timers and the state shared by both implementations\<close>

datatype source = codemirror | milkdown

datatype exn = ParserThrew | SerializerThrew | TypeError | RangeError

datatype 's outcome = Done 's | Raised exn 's

fun state_of :: "'s outcome \<Rightarrow> 's" where
  "state_of (Done s) = s"
| "state_of (Raised e s) = s"

fun and_then :: "'s outcome \<Rightarrow> ('s \<Rightarrow> 's outcome) \<Rightarrow> 's outcome" where
  "and_then (Done s) f = f s"
| "and_then (Raised e s) f = Raised e s"

fun try_catch :: "'s outcome \<Rightarrow> (exn \<Rightarrow> 's \<Rightarrow> 's outcome) \<Rightarrow> 's outcome" where
  "try_catch (Done s) h = Done s"
| "try_catch (Raised e s) h = h e s"

fun try_finally :: "'s outcome \<Rightarrow> ('s \<Rightarrow> 's) \<Rightarrow> 's outcome" where
  "try_finally (Done s) f = Done (f s)"
| "try_finally (Raised e s) f = Raised e (f s)"

text \<open>
  The Milkdown and CodeMirror libraries are not part of the repository. What the sync code
  calls is a parameter: the parser (which may throw or return null), the serializer
  (\<open>None\<close> when it throws), \<open>doc.content.size\<close>, \<open>Selection.near(doc.resolve(pos))\<close> as a
  pair (from, to), the mapping of a selection or a cursor through a full replacement, and
  whether \<open>schema.nodes.doc.createAndFill()\<close> returns a node.
\<close>

datatype 'd parsed = Throws | Null | Node 'd

record 'd library =
  parser :: "string \<Rightarrow> 'd parsed"
  serializer :: "'d \<Rightarrow> string option"
  contentSize :: "'d \<Rightarrow> nat"
  near :: "'d \<Rightarrow> nat \<Rightarrow> nat \<times> nat"
  mapSelection :: "'d \<Rightarrow> 'd \<Rightarrow> nat \<times> nat \<Rightarrow> nat \<times> nat"
  mapPos :: "string \<Rightarrow> string \<Rightarrow> nat \<Rightarrow> nat"
  createAndFill :: bool

text \<open>A pending \<open>setTimeout\<close>: its handle, the time at which it is due, and its callback.\<close>

record 'j timer =
  tid :: nat
  due :: nat
  task :: 'j

text \<open>
  The state both implementations share: the three fields of the sync state, the pending
  timers and the clock in milliseconds, the text and cursor of the CodeMirror view, the
  document and selection of the Milkdown view, and the text of the sync indicator.
  \<open>milkdownEditor\<close> is false while the reference is null. \<open>replaceCount\<close> is bookkeeping
  that the program does not have: it counts the full-text replacements that the sync code
  dispatches to the CodeMirror view.
\<close>

record ('j, 'd) page =
  isUpdating :: bool
  lastSource :: "source option"
  debounceTimer :: "nat option"
  milkdownEditor :: bool
  timers :: "'j timer list"
  nextTimer :: nat
  now :: nat
  cmDoc :: string
  cmHead :: nat
  mdDoc :: 'd
  mdSelection :: "nat \<times> nat"
  status :: string
  replaceCount :: nat

definition setTimeout ::
  "'j \<Rightarrow> nat \<Rightarrow> ('j, 'd, 'z) page_scheme \<Rightarrow> nat \<times> ('j, 'd, 'z) page_scheme" where
  "setTimeout callback delay w =
     (nextTimer w,
      w\<lparr>timers := timers w @ [\<lparr>tid = nextTimer w, due = now w + delay, task = callback\<rparr>],
        nextTimer := nextTimer w + 1\<rparr>)"

definition clearTimeout ::
  "nat option \<Rightarrow> ('j, 'd, 'z) page_scheme \<Rightarrow> ('j, 'd, 'z) page_scheme" where
  "clearTimeout handle w = w\<lparr>timers := filter (\<lambda>t. Some (tid t) \<noteq> handle) (timers w)\<rparr>"

definition js_index :: "jsnum \<Rightarrow> nat \<Rightarrow> nat option" where
  "js_index x n =
     (case x of
        Num r \<Rightarrow> (if 0 \<le> r \<and> r \<le> real n \<and> r = of_int \<lfloor>r\<rfloor> then Some (nat \<lfloor>r\<rfloor>) else None)
      | _ \<Rightarrow> None)"

fun js_eq :: "jsnum \<Rightarrow> jsnum \<Rightarrow> bool" where
  "js_eq NaN y = False"
| "js_eq x NaN = False"
| "js_eq x y = (x = y)"

section \<open>The SyncManager class with its two editor facades\<close>

text \<open>
  The callbacks that the class and its Milkdown facade pass to \<open>setTimeout\<close>: the two
  debounced syncs with the content they captured, and the two delayed releases.
  \<open>syncLog\<close> is bookkeeping that the program does not have: every debounced callback that
  passes its \<open>lastSource\<close> test appends its direction and content.
\<close>

datatype job =
    CodeMirrorSync string
  | MilkdownSync string
  | ReleaseUpdating
  | ReleaseInternalUpdate

record 'd manager = "(job, 'd) page" +
  codemirrorEditor :: bool
  syncDelay :: nat
  isInternalUpdate :: bool
  syncLog :: "(source \<times> string) list"

text \<open>The constructor, around editors with the given content, and \<open>init\<close>.\<close>

definition SyncManager :: "string \<Rightarrow> nat \<Rightarrow> 'd \<Rightarrow> nat \<times> nat \<Rightarrow> 'd manager" where
  "SyncManager text head doc sel =
     \<lparr>isUpdating = False, lastSource = None, debounceTimer = None, milkdownEditor = False,
      timers = [], nextTimer = 1, now = 0,
      cmDoc = text, cmHead = head, mdDoc = doc, mdSelection = sel, status = [], replaceCount = 0,
      codemirrorEditor = False, syncDelay = 500, isInternalUpdate = False, syncLog = []\<rparr>"

definition init :: "'d manager \<Rightarrow> 'd manager" where
  "init w = w\<lparr>codemirrorEditor := True, milkdownEditor := True\<rparr>"

text \<open>\<open>status\<close> holds the argument of \<open>updateStatus\<close>; a missing status element is skipped by the source.\<close>

definition updateStatus :: "string \<Rightarrow> ('j, 'd, 'z) page_scheme \<Rightarrow> ('j, 'd, 'z) page_scheme" where
  "updateStatus s w = w\<lparr>status := s\<rparr>"

definition handleCodeMirrorChange :: "string \<Rightarrow> 'd manager \<Rightarrow> 'd manager" where
  "handleCodeMirrorChange content w =
     (if isUpdating w then w
      else let w1 = updateStatus ''syncing'' (clearTimeout (debounceTimer w) w);
               (h, w2) = setTimeout (CodeMirrorSync content) (syncDelay w1) w1
           in w2\<lparr>debounceTimer := Some h\<rparr>)"

definition handleMilkdownChange :: "string \<Rightarrow> 'd manager \<Rightarrow> 'd manager" where
  "handleMilkdownChange content w =
     (if isUpdating w then w
      else let w1 = updateStatus ''syncing'' (clearTimeout (debounceTimer w) w);
               (h, w2) = setTimeout (MilkdownSync content) (syncDelay w1) w1
           in w2\<lparr>debounceTimer := Some h\<rparr>)"

definition destroy :: "'d manager \<Rightarrow> 'd manager" where
  "destroy w = (clearTimeout (debounceTimer w) w)\<lparr>codemirrorEditor := False, milkdownEditor := False\<rparr>"

subsection \<open>The CodeMirror facade\<close>

text \<open>
  \<open>view.dispatch\<close> with changes replaces the text, CodeMirror maps the selection through
  the change (\<open>mapPos\<close>), and the update listener reports the new text to the handler
  registered by the page, which forwards it to \<open>handleCodeMirrorChange\<close>.
\<close>

definition codemirror_setContent :: "'d library \<Rightarrow> string \<Rightarrow> 'd manager \<Rightarrow> 'd manager" where
  "codemirror_setContent lib content w =
     (let currentContent = cmDoc w
      in if currentContent \<noteq> content
         then handleCodeMirrorChange content
                (w\<lparr>cmDoc := content, cmHead := mapPos lib currentContent content (cmHead w),
                   replaceCount := replaceCount w + 1\<rparr>)
         else w)"

text \<open>A selection outside the document makes \<open>view.dispatch\<close> throw a RangeError.\<close>

definition codemirror_setCursorPosition ::
  "int \<Rightarrow> ('j, 'd, 'z) page_scheme \<Rightarrow> ('j, 'd, 'z) page_scheme outcome" where
  "codemirror_setCursorPosition pos w =
     (if 0 \<le> pos \<and> pos \<le> int (length (cmDoc w)) then Done (w\<lparr>cmHead := nat pos\<rparr>)
      else Raised RangeError w)"

subsection \<open>The Milkdown facade\<close>

text \<open>
  The \<open>markdownUpdated\<close> listener of \<open>initializeMilkdown\<close>, with the page's handler that
  forwards to \<open>handleMilkdownChange\<close>. The listener plugin is taken to report a document
  change while the transaction is dispatched.
\<close>

definition markdownUpdated :: "string \<Rightarrow> string \<Rightarrow> 'd manager \<Rightarrow> 'd manager" where
  "markdownUpdated markdown prevMarkdown w =
     (if \<not> isInternalUpdate w \<and> markdown \<noteq> prevMarkdown
      then handleMilkdownChange markdown w else w)"

definition milkdown_docChanged :: "'d library \<Rightarrow> 'd \<Rightarrow> 'd manager \<Rightarrow> 'd manager" where
  "milkdown_docChanged lib prevDoc w =
     (case (serializer lib (mdDoc w), serializer lib prevDoc) of
        (Some markdown, Some prevMarkdown) \<Rightarrow> markdownUpdated markdown prevMarkdown w
      | _ \<Rightarrow> w)"

definition milkdown_setContent :: "'d library \<Rightarrow> string \<Rightarrow> 'd manager \<Rightarrow> 'd manager outcome" where
  "milkdown_setContent lib content w =
     (let w1 = w\<lparr>isInternalUpdate := True\<rparr>
      in try_finally
           (case parser lib content of
              Throws \<Rightarrow> Raised ParserThrew w1
            | Null \<Rightarrow> Done w1
            | Node doc \<Rightarrow>
                Done (milkdown_docChanged lib (mdDoc w1)
                        (w1\<lparr>mdDoc := doc,
                            mdSelection := mapSelection lib (mdDoc w1) doc (mdSelection w1)\<rparr>)))
           (\<lambda>s. snd (setTimeout ReleaseInternalUpdate 100 s)))"

text \<open>
  \<open>doc.resolve\<close> throws a RangeError for a position outside the document; the position
  passed is \<open>Math.min(pos, view.state.doc.content.size)\<close>.
\<close>

definition milkdown_setCursorPosition :: "'d library \<Rightarrow> int \<Rightarrow> 'd manager \<Rightarrow> 'd manager outcome" where
  "milkdown_setCursorPosition lib pos w =
     (let p = min pos (int (contentSize lib (mdDoc w)))
      in if 0 \<le> p then Done (w\<lparr>mdSelection := near lib (mdDoc w) (nat p)\<rparr>)
         else Raised RangeError w)"

subsection \<open>Cursor adjustment by common prefix and suffix\<close>

fun getCommonPrefixLength :: "string \<Rightarrow> string \<Rightarrow> nat" where
  "getCommonPrefixLength (a # str1) (b # str2) =
     (if a = b then Suc (getCommonPrefixLength str1 str2) else 0)"
| "getCommonPrefixLength str1 str2 = 0"

definition getCommonSuffixLength :: "string \<Rightarrow> string \<Rightarrow> nat" where
  "getCommonSuffixLength str1 str2 = getCommonPrefixLength (rev str1) (rev str2)"

definition adjustCursorPosition :: "string \<Rightarrow> string \<Rightarrow> nat \<Rightarrow> int" where
  "adjustCursorPosition oldContent newContent oldPosition =
     (if oldContent = newContent then int oldPosition
      else let commonPrefixLength = getCommonPrefixLength oldContent newContent
           in if oldPosition \<le> commonPrefixLength then int oldPosition
              else let commonSuffixLength =
                         getCommonSuffixLength (drop commonPrefixLength oldContent)
                                               (drop commonPrefixLength newContent);
                       oldEndPosition = int (length oldContent) - int commonSuffixLength
                   in if int oldPosition \<ge> oldEndPosition
                      then let offset = int (length oldContent) - int oldPosition
                           in max 0 (int (length newContent) - offset)
                      else let ratio = (real oldPosition - real commonPrefixLength)
                                         / (real_of_int oldEndPosition - real commonPrefixLength);
                               newEndPosition = int (length newContent) - int commonSuffixLength;
                               newPosition = int commonPrefixLength
                                 + \<lfloor>ratio * (real_of_int newEndPosition - real commonPrefixLength) + 1 / 2\<rfloor>
                           in min (max 0 newPosition) (int (length newContent)))"

subsection \<open>The debounced callbacks\<close>

text \<open>
  The body of the \<open>try\<close> block of the callback scheduled by \<open>handleCodeMirrorChange\<close>.
  A method call on an editor reference that \<open>destroy\<close> has set to null throws a TypeError.
  The word count written to the page is left out.
\<close>

definition codeMirrorDebounced_try :: "'d library \<Rightarrow> string \<Rightarrow> 'd manager \<Rightarrow> 'd manager outcome" where
  "codeMirrorDebounced_try lib content w =
     (if \<not> codemirrorEditor w then Raised TypeError w
      else let cursorPos = cmHead w
           in if \<not> milkdownEditor w then Raised TypeError w
              else and_then (milkdown_setContent lib content w) (\<lambda>w1.
                   let approximatePos = calculateApproximatePosition content (int cursorPos)
                   in and_then (if approximatePos \<ge> 0
                                then milkdown_setCursorPosition lib approximatePos w1
                                else Done w1) (\<lambda>w2.
                      Done (updateStatus ''ready'' w2))))"

definition codeMirrorDebounced :: "'d library \<Rightarrow> string \<Rightarrow> 'd manager \<Rightarrow> 'd manager outcome" where
  "codeMirrorDebounced lib content w =
     (if lastSource w = Some milkdown
      then Done (updateStatus ''ready'' (w\<lparr>lastSource := None\<rparr>))
      else let w1 = w\<lparr>isUpdating := True, lastSource := Some codemirror,
                       syncLog := syncLog w @ [(codemirror, content)]\<rparr>
           in try_finally
                (try_catch (codeMirrorDebounced_try lib content w1)
                           (\<lambda>error s. Done (updateStatus ''error'' s)))
                (\<lambda>s. snd (setTimeout ReleaseUpdating 100 s)))"

text \<open>The body of the \<open>try\<close> block of the callback scheduled by \<open>handleMilkdownChange\<close>.\<close>

definition milkdownDebounced_try :: "'d library \<Rightarrow> string \<Rightarrow> 'd manager \<Rightarrow> 'd manager outcome" where
  "milkdownDebounced_try lib content w =
     (if \<not> codemirrorEditor w then Raised TypeError w
      else let currentContent = cmDoc w
           in if currentContent \<noteq> content
              then let cursorPos = cmHead w;
                       w1 = codemirror_setContent lib content w;
                       newCursorPos = adjustCursorPosition currentContent content cursorPos
                   in and_then (codemirror_setCursorPosition newCursorPos w1) (\<lambda>w2.
                        Done (updateStatus ''ready'' w2))
              else Done (updateStatus ''ready'' w))"

definition milkdownDebounced :: "'d library \<Rightarrow> string \<Rightarrow> 'd manager \<Rightarrow> 'd manager outcome" where
  "milkdownDebounced lib content w =
     (if lastSource w = Some codemirror
      then Done (updateStatus ''ready'' (w\<lparr>lastSource := None\<rparr>))
      else let w1 = w\<lparr>isUpdating := True, lastSource := Some milkdown,
                       syncLog := syncLog w @ [(milkdown, content)]\<rparr>
           in try_finally
                (try_catch (milkdownDebounced_try lib content w1)
                           (\<lambda>error s. Done (updateStatus ''error'' s)))
                (\<lambda>s. snd (setTimeout ReleaseUpdating 100 s)))"

fun fire :: "'d library \<Rightarrow> job \<Rightarrow> 'd manager \<Rightarrow> 'd manager outcome" where
  "fire lib (CodeMirrorSync content) w = codeMirrorDebounced lib content w"
| "fire lib (MilkdownSync content) w = milkdownDebounced lib content w"
| "fire lib ReleaseUpdating w = Done (w\<lparr>isUpdating := False, lastSource := None\<rparr>)"
| "fire lib ReleaseInternalUpdate w = Done (w\<lparr>isInternalUpdate := False\<rparr>)"


subsection \<open>The event loop\<close>

text \<open>
  Timers fire in the order of their due times, and in the order of their creation when
  two are due together. The callbacks run to completion: the \<open>await\<close> in the callback
  resumes in a microtask, before any other timer or input event.
\<close>

text \<open>The first timer with the least due time.\<close>

fun earliest :: "'j timer list \<Rightarrow> 'j timer option" where
  "earliest [] = None"
| "earliest (x # xs) =
     (case earliest xs of
        None \<Rightarrow> Some x
      | Some y \<Rightarrow> if due y < due x then Some y else Some x)"

definition next_due :: "nat \<Rightarrow> 'j timer list \<Rightarrow> 'j timer option" where
  "next_due t ts = earliest (filter (\<lambda>x. due x \<le> t) ts)"

text \<open>
  The loop terminates because a debounced sync schedules at most two releases and a
  release schedules nothing.
\<close>

fun weight :: "job \<Rightarrow> nat" where
  "weight (CodeMirrorSync c) = 3"
| "weight (MilkdownSync c) = 3"
| "weight ReleaseUpdating = 1"
| "weight ReleaseInternalUpdate = 1"

definition pending_weight :: "job timer list \<Rightarrow> nat" where
  "pending_weight ts = sum_list (map (\<lambda>x. weight (task x)) ts)"

text \<open>The two delayed releases, as opposed to the two debounced syncs.\<close>

definition is_release :: "job \<Rightarrow> bool" where
  "is_release j = (j = ReleaseUpdating \<or> j = ReleaseInternalUpdate)"

function run_until :: "'d library \<Rightarrow> nat \<Rightarrow> 'd manager \<Rightarrow> 'd manager" where
  "run_until lib t w =
     (case next_due t (timers w) of
        None \<Rightarrow> w\<lparr>now := max (now w) t\<rparr>
      | Some x \<Rightarrow>
          run_until lib t
            (state_of (fire lib (task x)
               (w\<lparr>timers := remove1 x (timers w), now := max (now w) (due x)\<rparr>))))"
  by pat_completeness auto
termination
proof (relation "measure (\<lambda>(lib, t, w). pending_weight (timers w))")
  show "wf (measure (\<lambda>(lib, t, w). pending_weight (timers w)))" by simp
next
  fix lib :: "'d library" and t :: nat and w :: "'d manager" and x :: "job timer"
  assume due: "next_due t (timers w) = Some x"
  have picked: "earliest ts = Some y \<Longrightarrow> y \<in> set ts" for ts :: "job timer list" and y
    by (induction ts arbitrary: y) (auto split: option.splits if_splits)
  have mem: "x \<in> set (timers w)"
    using due picked[of "filter (\<lambda>x. due x \<le> t) (timers w)" x] by (auto simp: next_due_def)
  have removed: "x \<in> set ts \<Longrightarrow> pending_weight (remove1 x ts) + weight (task x) = pending_weight ts"
    for ts
    by (induction ts) (auto simp: pending_weight_def)
  have releases: "list_all (\<lambda>r. is_release (task r)) rs \<Longrightarrow> pending_weight rs = length rs" for rs
    by (induction rs) (auto simp: pending_weight_def is_release_def)
  let ?w = "w\<lparr>timers := remove1 x (timers w), now := max (now w) (due x)\<rparr>"
  have "\<exists>rs. timers (state_of (fire lib (task x) ?w)) = timers ?w @ rs \<and>
          list_all (\<lambda>r. is_release (task r)) rs \<and> length rs < weight (task x)"
    by (cases "task x")
       (simp_all add: codeMirrorDebounced_def codeMirrorDebounced_try_def milkdown_setContent_def
          milkdown_docChanged_def markdownUpdated_def milkdown_setCursorPosition_def
          milkdownDebounced_def milkdownDebounced_try_def codemirror_setContent_def
          codemirror_setCursorPosition_def handleCodeMirrorChange_def handleMilkdownChange_def
          updateStatus_def setTimeout_def Let_def is_release_def
          split: parsed.splits option.splits)
  then obtain rs where rs: "timers (state_of (fire lib (task x) ?w)) = timers ?w @ rs"
      "list_all (\<lambda>r. is_release (task r)) rs" "length rs < weight (task x)"
    by blast
  have "pending_weight (timers (state_of (fire lib (task x) ?w)))
          = pending_weight (remove1 x (timers w)) + length rs"
    using rs(1) releases[OF rs(2)] by (simp add: pending_weight_def)
  also have "\<dots> < pending_weight (remove1 x (timers w)) + weight (task x)"
    using rs(3) by simp
  also have "\<dots> = pending_weight (timers w)"
    using removed[OF mem] .
  finally show "((lib, t, state_of (fire lib (task x) ?w)), (lib, t, w))
      \<in> measure (\<lambda>(lib, t, w). pending_weight (timers w))"
    by simp
qed

declare run_until.simps [simp del]

subsection \<open>Input events\<close>

text \<open>
  A user edit in CodeMirror reaches \<open>handleCodeMirrorChange\<close> through the update listener;
  a user edit in Milkdown reaches \<open>handleMilkdownChange\<close> through \<open>markdownUpdated\<close>.
\<close>

datatype 'd event =
    TypeInCodeMirror string nat
  | EditInMilkdown 'd "nat \<times> nat"
  | Wait nat
  | Destroy

fun step :: "'d library \<Rightarrow> 'd manager \<Rightarrow> 'd event \<Rightarrow> 'd manager" where
  "step lib w (TypeInCodeMirror content head) =
     handleCodeMirrorChange content (w\<lparr>cmDoc := content, cmHead := head\<rparr>)"
| "step lib w (EditInMilkdown doc sel) =
     milkdown_docChanged lib (mdDoc w) (w\<lparr>mdDoc := doc, mdSelection := sel\<rparr>)"
| "step lib w (Wait d) = run_until lib (now w + d) w"
| "step lib w Destroy = destroy w"

definition run :: "'d library \<Rightarrow> 'd event list \<Rightarrow> 'd manager \<Rightarrow> 'd manager" where
  "run lib evs w = foldl (step lib) w evs"


section \<open>The page script with the global syncManager object\<close>

datatype script_job =
    CodeMirrorChanged string
  | MilkdownChanged

record 'd script = "(script_job, 'd) page" +
  codemirrorView :: bool
  debounceDelay :: nat
  scrollSync :: bool
  codemirrorStatus :: string
  milkdownStatus :: string

text \<open>The state of the script before \<open>initialize\<close> runs, around editors with the given content.\<close>

definition syncManager :: "string \<Rightarrow> nat \<Rightarrow> 'd \<Rightarrow> nat \<times> nat \<Rightarrow> 'd script" where
  "syncManager text head doc sel =
     \<lparr>isUpdating = False, lastSource = None, debounceTimer = None, milkdownEditor = False,
      timers = [], nextTimer = 1, now = 0,
      cmDoc = text, cmHead = head, mdDoc = doc, mdSelection = sel, status = [], replaceCount = 0,
      codemirrorView = False, debounceDelay = 300, scrollSync = False,
      codemirrorStatus = [], milkdownStatus = []\<rparr>"

definition initialize :: "'d script \<Rightarrow> 'd script" where
  "initialize w = w\<lparr>codemirrorView := True, milkdownEditor := True\<rparr>"

text \<open>Timer handles are positive, so \<open>if (syncManager.debounceTimer)\<close> tests for null.\<close>

definition handleCodeMirrorChange_script :: "string \<Rightarrow> 'd script \<Rightarrow> 'd script" where
  "handleCodeMirrorChange_script content w =
     (let w1 = (if debounceTimer w \<noteq> None then clearTimeout (debounceTimer w) w else w);
          w2 = w1\<lparr>codemirrorStatus := ''Syncing...''\<rparr>;
          (h, w3) = setTimeout (CodeMirrorChanged content) (debounceDelay w2) w2
      in w3\<lparr>debounceTimer := Some h\<rparr>)"

definition handleMilkdownChange_script :: "'d script \<Rightarrow> 'd script" where
  "handleMilkdownChange_script w =
     (let w1 = (if debounceTimer w \<noteq> None then clearTimeout (debounceTimer w) w else w);
          w2 = w1\<lparr>milkdownStatus := ''Syncing...''\<rparr>;
          (h, w3) = setTimeout MilkdownChanged (debounceDelay w2) w2
      in w3\<lparr>debounceTimer := Some h\<rparr>)"

text \<open>The two listeners, called while a transaction that changes the document is dispatched.\<close>

definition updateListener :: "string \<Rightarrow> 'd script \<Rightarrow> 'd script" where
  "updateListener content w =
     (if \<not> isUpdating w then handleCodeMirrorChange_script content w else w)"

definition updated :: "'d script \<Rightarrow> 'd script" where
  "updated w = (if \<not> isUpdating w then handleMilkdownChange_script w else w)"

text \<open>
  The function passed to \<open>milkdownEditor.action\<close> in \<open>syncToMilkdown\<close>. The parser runs
  first. \<open>doc.content\<close> of a null document throws a TypeError, \<open>tr.doc.resolve\<close> throws a
  RangeError outside the new document, and so does \<open>tr.setSelection\<close> with the selection of
  the old document. A selection that is not set is mapped through the replacement by
  ProseMirror.
\<close>

definition syncToMilkdown_action :: "'d library \<Rightarrow> string \<Rightarrow> 'd script \<Rightarrow> 'd script outcome" where
  "syncToMilkdown_action lib content w =
     (case parser lib content of
        Throws \<Rightarrow> Raised ParserThrew w
      | Null \<Rightarrow> Raised TypeError w
      | Node doc \<Rightarrow>
          (let (from, to) = mdSelection w;
               docSize = contentSize lib (mdDoc w);
               relativeFrom = relativePos from docSize;
               relativeTo = relativePos to docSize;
               newDocSize = contentSize lib doc;
               newFrom = newPos relativeFrom newDocSize;
               newTo = newPos relativeTo newDocSize
           in if js_eq newFrom newTo
              then (if createAndFill lib
                    then (case js_index newFrom newDocSize of
                            None \<Rightarrow> Raised RangeError w
                          | Some p \<Rightarrow>
                              Done (updated (w\<lparr>mdDoc := doc, mdSelection := near lib doc p\<rparr>)))
                    else Raised RangeError w)
              else Done (updated
                     (w\<lparr>mdDoc := doc,
                        mdSelection := mapSelection lib (mdDoc w) doc (from, to)\<rparr>))))"

definition syncToMilkdown :: "'d library \<Rightarrow> string \<Rightarrow> 'd script \<Rightarrow> 'd script outcome" where
  "syncToMilkdown lib content w =
     (if \<not> milkdownEditor w then Done w
      else let w1 = w\<lparr>isUpdating := True, lastSource := Some codemirror\<rparr>
           in try_finally
                (try_catch
                   (and_then (syncToMilkdown_action lib content (updateStatus ''Syncing...'' w1))
                      (\<lambda>s. Done (updateStatus ''Synced'' s)))
                   (\<lambda>error s. Done (updateStatus ''Sync Error'' s)))
                (\<lambda>s. s\<lparr>isUpdating := False\<rparr>))"

text \<open>
  The \<open>try\<close> block of \<open>syncToCodeMirror\<close>: serialize, replace the whole text (the update
  listener runs during the dispatch), then set the cursor from the stored fraction.
\<close>

definition syncToCodeMirror_try :: "'d library \<Rightarrow> 'd script \<Rightarrow> 'd script outcome" where
  "syncToCodeMirror_try lib w =
     (case serializer lib (mdDoc w) of
        None \<Rightarrow> Raised SerializerThrew w
      | Some markdown \<Rightarrow>
          (let cursorPos = cmHead w;
               docLength = length (cmDoc w);
               relativePosition = relativePos cursorPos docLength;
               w1 = updateListener markdown
                      (w\<lparr>cmDoc := markdown,
                         cmHead := mapPos lib (cmDoc w) markdown cursorPos,
                         replaceCount := replaceCount w + 1\<rparr>);
               newLength = length (cmDoc w1)
           in (case js_index (newPos relativePosition newLength) newLength of
                 None \<Rightarrow> Raised RangeError w1
               | Some p \<Rightarrow> Done (updateStatus ''Synced'' (w1\<lparr>cmHead := p\<rparr>)))))"

definition syncToCodeMirror :: "'d library \<Rightarrow> 'd script \<Rightarrow> 'd script outcome" where
  "syncToCodeMirror lib w =
     (if \<not> codemirrorView w then Done w
      else let w1 = w\<lparr>isUpdating := True, lastSource := Some milkdown\<rparr>
           in try_finally
                (try_catch (syncToCodeMirror_try lib (updateStatus ''Syncing...'' w1))
                   (\<lambda>error s. Done (updateStatus ''Sync Error'' s)))
                (\<lambda>s. s\<lparr>isUpdating := False\<rparr>))"

fun fire_script :: "'d library \<Rightarrow> script_job \<Rightarrow> 'd script \<Rightarrow> 'd script outcome" where
  "fire_script lib (CodeMirrorChanged content) w =
     and_then (syncToMilkdown lib content w) (\<lambda>s. Done (s\<lparr>codemirrorStatus := ''Ready''\<rparr>))"
| "fire_script lib MilkdownChanged w =
     and_then (syncToCodeMirror lib w) (\<lambda>s. Done (s\<lparr>milkdownStatus := ''Ready''\<rparr>))"

section \<open>Scenarios and invariants\<close>




text \<open>Every pending timer is one of the two delayed releases.\<close>

definition only_releases :: "'d manager \<Rightarrow> bool" where
  "only_releases w = list_all (\<lambda>x. is_release (task x)) (timers w)"


text \<open>Every pending debounced sync is the one that \<open>debounceTimer\<close> refers to.\<close>

definition single_debounce :: "'d manager \<Rightarrow> bool" where
  "single_debounce w =
     (\<forall>x\<in>set (timers w). \<not> is_release (task x) \<longrightarrow> debounceTimer w = Some (tid x))"


text \<open>
  Timer handles are never reused: the handles of the pending timers are distinct and
  below \<open>nextTimer\<close>, as is the debounce handle, which is never that of a release.
\<close>

definition fresh_ids :: "'d manager \<Rightarrow> bool" where
  "fresh_ids w =
     (distinct (map tid (timers w)) \<and>
      (\<forall>x\<in>set (timers w). tid x < nextTimer w) \<and>
      (\<forall>h. debounceTimer w = Some h \<longrightarrow> h < nextTimer w) \<and>
      (\<forall>x\<in>set (timers w). is_release (task x) \<longrightarrow> debounceTimer w \<noteq> Some (tid x)))"

text \<open>
  While the flag is set, nothing but releases is pending, and the release of the flag is
  due within 100 ms.
\<close>

definition flag_guarded :: "'d manager \<Rightarrow> bool" where
  "flag_guarded w =
     (isUpdating w \<longrightarrow>
        only_releases w \<and>
        (\<exists>x\<in>set (timers w). task x = ReleaseUpdating \<and> due x \<le> now w + 100))"

text \<open>The three facts that hold in every state the class can reach.\<close>

definition orderly :: "'d manager \<Rightarrow> bool" where
  "orderly w = (fresh_ids w \<and> single_debounce w \<and> flag_guarded w)"


text \<open>
  A library for concrete runs: documents are plain strings, the parser throws on the
  text \<open>!\<close>, positions are kept where they are.
\<close>

definition plain_library :: "string library" where
  "plain_library =
     \<lparr>parser = (\<lambda>text. if text = ''!'' then Throws else Node text),
      serializer = Some,
      contentSize = length,
      near = (\<lambda>doc pos. (pos, pos)),
      mapSelection = (\<lambda>old new sel. sel),
      mapPos = (\<lambda>old new pos. min pos (length new)),
      createAndFill = True\<rparr>"

section \<open>Properties of the cursor arithmetic\<close>

lemma split_on_ne: "split_on s xs \<noteq> []"
  by (induction xs) (auto split: list.splits)

lemma split_on_append:
  "split_on s (a @ b) =
     butlast (split_on s a) @ [last (split_on s a) @ hd (split_on s b)] @ tl (split_on s b)"
proof (induction a)
  case Nil
  then show ?case using split_on_ne[of s b] by (cases "split_on s b") auto
next
  case (Cons c a)
  obtain l ls where A: "split_on s a = l # ls"
    using split_on_ne[of s a] by (cases "split_on s a") auto
  show ?case
  proof (cases "c = s")
    case True
    then show ?thesis using Cons A by simp
  next
    case False
    then show ?thesis using Cons A by (cases ls) auto
  qed
qed

lemma split_on_total:
  "sum_list (map length (split_on s xs)) + length (split_on s xs) = length xs + 1"
proof (induction xs)
  case Nil
  then show ?case by simp
next
  case (Cons c xs)
  obtain l ls where A: "split_on s xs = l # ls"
    using split_on_ne[of s xs] by (cases "split_on s xs") auto
  show ?case using Cons A by auto
qed

lemma fold_line_offsets:
  "k \<le> length ls \<Longrightarrow>
   fold (\<lambda>i acc. acc + int (length (ls ! i)) + 1) [0 ..< k] a =
     a + int (sum_list (map length (take k ls))) + int k"
proof (induction k arbitrary: a)
  case 0
  then show ?case by simp
next
  case (Suc k)
  then show ?case by (simp add: take_Suc_conv_app_nth)
qed

lemma calc_pos_in_range:
  assumes "0 \<le> position" "position \<le> int (length content)"
  shows "calculateApproximatePosition content position = position"
proof -
  define p where "p = nat position"
  define A where "A = split_on CHR 0x0A (take p content)"
  define B where "B = split_on CHR 0x0A (drop p content)"
  define lines where "lines = split_on CHR 0x0A content"
  have p: "p \<le> length content" "int p = position" using assms by (auto simp: p_def)
  have Ane: "A \<noteq> []" by (simp add: A_def split_on_ne)
  have "lines = split_on CHR 0x0A (take p content @ drop p content)"
    by (simp add: lines_def)
  then have L: "lines = butlast A @ [last A @ hd B] @ tl B"
    by (simp only: split_on_append A_def B_def)
  have lenb: "length (butlast A) = length A - 1" by simp
  have k: "min (length A - 1) (length lines) = length A - 1"
    using L by simp
  have le: "length A \<le> length lines" using L Ane by (cases A) auto
  have lt: "length A - 1 < length lines" using L Ane by (cases A) auto
  have tk: "take (length A - 1) lines = butlast A" using L lenb by simp
  have nth: "lines ! (length A - 1) = last A @ hd B"
    using L lenb by (metis append_Cons nth_append_length)
  have tot: "sum_list (map length A) + length A = p + 1"
    using split_on_total[of "CHR 0x0A" "take p content"] p by (simp add: A_def)
  have AA: "A = butlast A @ [last A]" using Ane by simp
  have "sum_list (map length A) = sum_list (map length (butlast A)) + length (last A)"
    by (subst AA) (simp del: append_butlast_last_id)
  with tot have s: "sum_list (map length (butlast A)) + length (last A) + length A = p + 1"
    by simp
  have f: "fold (\<lambda>i acc. acc + int (length (lines ! i)) + 1) [0 ..< length A - 1] 0 =
      int (sum_list (map length (butlast A))) + int (length A - 1)"
    using fold_line_offsets[of "length A - 1" lines 0] lt tk by simp
  have "calculateApproximatePosition content position =
      min (int (sum_list (map length (butlast A))) + int (length A - 1) + int (length (last A)))
          (int (length content))"
    unfolding calculateApproximatePosition_def substring0_def Let_def
    using k le lt nth f
    by (simp add: A_def[symmetric] lines_def[symmetric] p_def[symmetric])
  also have "\<dots> = position" using s p Ane by (cases A) auto
  finally show ?thesis .
qed

lemma calc_pos_bound: "calculateApproximatePosition content position \<le> int (length content)"
  by (simp add: calculateApproximatePosition_def Let_def)

lemma relativePos_unit: "pos \<le> docSize \<Longrightarrow> \<exists>q. relativePos pos docSize = Num q \<and> 0 \<le> q \<and> q \<le> 1"
  by (simp add: relativePos_def js_div_def)

lemma newPos_bounds:
  assumes "0 \<le> r"
  shows "\<exists>k. newPos (Num r) n = Num (of_int k) \<and> 0 \<le> k \<and> k \<le> int n"
proof -
  have nn: "0 \<le> r * real n" using assms by simp
  then have fl: "0 \<le> \<lfloor>r * real n + 1 / 2\<rfloor>" by simp
  have "min (of_int \<lfloor>r * real n + 1 / 2\<rfloor>) (real n)
          = real_of_int (min \<lfloor>r * real n + 1 / 2\<rfloor> (int n))"
    by (simp add: min_def)
  then have "newPos (Num r) n = Num (of_int (min \<lfloor>r * real n + 1 / 2\<rfloor> (int n)))"
    by (simp add: newPos_def)
  moreover have "0 \<le> min \<lfloor>r * real n + 1 / 2\<rfloor> (int n)" using fl by simp
  moreover have "min \<lfloor>r * real n + 1 / 2\<rfloor> (int n) \<le> int n" by simp
  ultimately show ?thesis by blast
qed

lemma clamp_bounds:
  assumes "0 \<le> x"
  shows "\<exists>k. js_min (js_round (Num x)) n = Num (of_int k) \<and> 0 \<le> k \<and> k \<le> int n"
proof -
  have fl: "0 \<le> \<lfloor>x + 1 / 2\<rfloor>" using assms by simp
  have "min (of_int \<lfloor>x + 1 / 2\<rfloor>) (real n) = real_of_int (min \<lfloor>x + 1 / 2\<rfloor> (int n))"
    by (simp add: min_def)
  then have "js_min (js_round (Num x)) n = Num (of_int (min \<lfloor>x + 1 / 2\<rfloor> (int n)))"
    by simp
  moreover have "0 \<le> min \<lfloor>x + 1 / 2\<rfloor> (int n)" using fl by simp
  moreover have "min \<lfloor>x + 1 / 2\<rfloor> (int n) \<le> int n" by simp
  ultimately show ?thesis by blast
qed

section \<open>Properties of the event loop and the callbacks\<close>

lemma earliest_mem: "earliest ts = Some x \<Longrightarrow> x \<in> set ts"
  by (induction ts arbitrary: x) (auto split: option.splits if_splits)

lemma next_due_mem: "next_due t ts = Some x \<Longrightarrow> x \<in> set ts \<and> due x \<le> t"
  using earliest_mem[of "filter (\<lambda>x. due x \<le> t) ts" x] by (auto simp: next_due_def)

lemma timers_setTimeout [simp]:
  "timers (snd (setTimeout j d w)) = timers w @ [\<lparr>tid = nextTimer w, due = now w + d, task = j\<rparr>]"
  by (simp add: setTimeout_def)

lemma handleCodeMirrorChange_updating [simp]:
  "isUpdating w \<Longrightarrow> handleCodeMirrorChange content w = w"
  by (simp add: handleCodeMirrorChange_def)

lemma handleMilkdownChange_updating [simp]:
  "isUpdating w \<Longrightarrow> handleMilkdownChange content w = w"
  by (simp add: handleMilkdownChange_def)

lemma codeMirrorDebounced_timers:
  "\<exists>rs. timers (state_of (codeMirrorDebounced lib content w)) = timers w @ rs \<and>
        list_all (\<lambda>r. is_release (task r)) rs \<and> length rs \<le> 2"
  by (simp add: codeMirrorDebounced_def codeMirrorDebounced_try_def milkdown_setContent_def
      milkdown_docChanged_def markdownUpdated_def milkdown_setCursorPosition_def
      updateStatus_def Let_def setTimeout_def is_release_def
      split: parsed.splits option.splits)

lemma milkdownDebounced_timers:
  "\<exists>rs. timers (state_of (milkdownDebounced lib content w)) = timers w @ rs \<and>
        list_all (\<lambda>r. is_release (task r)) rs \<and> length rs \<le> 2"
  by (simp add: milkdownDebounced_def milkdownDebounced_try_def codemirror_setContent_def
      codemirror_setCursorPosition_def
      updateStatus_def Let_def setTimeout_def is_release_def)

lemma run_until_None:
  "next_due t (timers w) = None \<Longrightarrow> run_until lib t w = w\<lparr>now := max (now w) t\<rparr>"
  by (subst run_until.simps) (simp only: option.case)

lemma run_until_Some:
  "next_due t (timers w) = Some x \<Longrightarrow>
   run_until lib t w =
     run_until lib t
       (state_of (fire lib (task x)
          (w\<lparr>timers := remove1 x (timers w), now := max (now w) (due x)\<rparr>)))"
  by (subst run_until.simps) (simp only: option.case)

lemma run_until_invariant_aux:
  "P w \<Longrightarrow>
   (\<And>s x. P s \<Longrightarrow> x \<in> set (timers s) \<Longrightarrow>
      P (state_of (fire lib (task x)
           (s\<lparr>timers := remove1 x (timers s), now := max (now s) (due x)\<rparr>)))) \<Longrightarrow>
   (\<And>s. P s \<Longrightarrow> P (s\<lparr>now := max (now s) t\<rparr>)) \<Longrightarrow>
   P (run_until lib t w)"
proof (induction lib t w rule: run_until.induct)
  case (1 lib t w)
  show ?case
  proof (cases "next_due t (timers w)")
    case None
    have "P (w\<lparr>now := max (now w) t\<rparr>)" using "1.prems"(1) by (rule "1.prems"(3))
    then show ?thesis by (simp only: run_until_None[OF None])
  next
    case (Some x)
    then have mem: "x \<in> set (timers w)" using next_due_mem by blast
    have "P (state_of (fire lib (task x)
               (w\<lparr>timers := remove1 x (timers w), now := max (now w) (due x)\<rparr>)))"
      using "1.prems"(1) mem by (rule "1.prems"(2))
    then have "P (run_until lib t (state_of (fire lib (task x)
                 (w\<lparr>timers := remove1 x (timers w), now := max (now w) (due x)\<rparr>))))"
      using "1.prems"(2,3) by (rule "1.IH"[OF Some])
    then show ?thesis by (simp only: run_until_Some[OF Some])
  qed
qed

lemma run_until_invariant_clock:
  assumes "P w"
    and "\<And>s x. P s \<Longrightarrow> x \<in> set (timers s) \<Longrightarrow>
          P (state_of (fire lib (task x)
               (s\<lparr>timers := remove1 x (timers s), now := max (now s) (due x)\<rparr>)))"
    and "\<And>s. P s \<Longrightarrow> P (s\<lparr>now := max (now s) t\<rparr>)"
  shows "P (run_until lib t w)"
  using assms by (rule run_until_invariant_aux)

lemma run_until_invariant:
  assumes "P w"
    and "\<And>s x. P s \<Longrightarrow> x \<in> set (timers s) \<Longrightarrow>
          P (state_of (fire lib (task x)
               (s\<lparr>timers := remove1 x (timers s), now := max (now s) (due x)\<rparr>)))"
    and "\<And>s n. P s \<Longrightarrow> P (s\<lparr>now := n\<rparr>)"
  shows "P (run_until lib t w)"
proof (rule run_until_invariant_clock)
  show "P w" by (rule assms(1))
next
  fix s x assume "P s" "x \<in> set (timers s)"
  then show "P (state_of (fire lib (task x)
      (s\<lparr>timers := remove1 x (timers s), now := max (now s) (due x)\<rparr>)))"
    by (rule assms(2))
next
  fix s assume "P s"
  then show "P (s\<lparr>now := max (now s) t\<rparr>)" by (rule assms(3))
qed

lemma earliest_None: "earliest ts = None \<Longrightarrow> ts = []"
  by (induction ts) (auto split: option.splits if_splits)

lemma next_due_None: "next_due t ts = None \<longleftrightarrow> (\<forall>x\<in>set ts. t < due x)"
proof
  assume "next_due t ts = None"
  then have "filter (\<lambda>x. due x \<le> t) ts = []" by (simp add: next_due_def earliest_None)
  then show "\<forall>x\<in>set ts. t < due x" by (auto simp: filter_empty_conv)
next
  assume "\<forall>x\<in>set ts. t < due x"
  then have "filter (\<lambda>x. due x \<le> t) ts = []" by (auto simp: filter_empty_conv)
  then show "next_due t ts = None" by (simp add: next_due_def)
qed

lemma run_until_none_due: "\<forall>x\<in>set (timers (run_until lib t w)). t < due x"
proof (induction lib t w rule: run_until.induct)
  case (1 lib t w)
  show ?case
  proof (cases "next_due t (timers w)")
    case None
    have "\<forall>x\<in>set (timers w). t < due x" using None by (simp add: next_due_None)
    then show ?thesis by (simp add: run_until_None[OF None])
  next
    case (Some x)
    show ?thesis using 1[OF Some] by (simp only: run_until_Some[OF Some])
  qed
qed


lemmas manager_defs =
  codeMirrorDebounced_def codeMirrorDebounced_try_def milkdown_setContent_def
  milkdown_docChanged_def markdownUpdated_def milkdown_setCursorPosition_def
  milkdownDebounced_def milkdownDebounced_try_def codemirror_setContent_def
  codemirror_setCursorPosition_def updateStatus_def setTimeout_def Let_def

lemma fire_Done: "\<exists>s. fire lib j w = Done s"
  by (cases j)
     (simp_all add: manager_defs split: parsed.splits option.splits)

lemma fire_debounceTimer: "debounceTimer (state_of (fire lib j w)) = debounceTimer w"
  by (cases j)
     (simp_all add: manager_defs split: parsed.splits option.splits)

lemma fire_syncDelay: "syncDelay (state_of (fire lib j w)) = syncDelay w"
  by (cases j)
     (simp_all add: manager_defs split: parsed.splits option.splits)

lemma fire_now: "now (state_of (fire lib j w)) = now w"
  by (cases j)
     (simp_all add: manager_defs split: parsed.splits option.splits)

lemma fire_timers:
  "\<exists>rs. timers (state_of (fire lib j w)) = timers w @ rs \<and>
        list_all (\<lambda>r. is_release (task r)) rs"
proof (cases j)
  case (CodeMirrorSync c)
  then show ?thesis using codeMirrorDebounced_timers[of lib c w] by auto
next
  case (MilkdownSync c)
  then show ?thesis using milkdownDebounced_timers[of lib c w] by auto
qed simp_all

lemma fire_release_syncLog:
  "is_release j \<Longrightarrow> syncLog (state_of (fire lib j w)) = syncLog w"
  by (cases j) (simp_all add: is_release_def)



lemma codeMirrorDebounced_isUpdating:
  "lastSource w \<noteq> Some milkdown \<Longrightarrow> isUpdating (state_of (codeMirrorDebounced lib c w))"
  by (simp add: manager_defs split: parsed.splits option.splits)

lemma milkdownDebounced_isUpdating:
  "lastSource w \<noteq> Some codemirror \<Longrightarrow> isUpdating (state_of (milkdownDebounced lib c w))"
  by (simp add: manager_defs split: parsed.splits option.splits)

lemma codeMirrorDebounced_release_pending:
  "lastSource w \<noteq> Some milkdown \<Longrightarrow>
   \<exists>x\<in>set (timers (state_of (codeMirrorDebounced lib c w))).
      task x = ReleaseUpdating \<and> due x = now w + 100"
  by (simp add: manager_defs split: parsed.splits option.splits)

lemma milkdownDebounced_release_pending:
  "lastSource w \<noteq> Some codemirror \<Longrightarrow>
   \<exists>x\<in>set (timers (state_of (milkdownDebounced lib c w))).
      task x = ReleaseUpdating \<and> due x = now w + 100"
  by (simp add: manager_defs split: parsed.splits option.splits)

lemma list_all_remove1: "list_all P xs \<Longrightarrow> list_all P (remove1 x xs)"
  by (induction xs) auto

lemma only_releases_fire:
  assumes "only_releases s"
  shows "only_releases (state_of (fire lib j (s\<lparr>timers := remove1 x (timers s), now := n\<rparr>)))"
proof -
  let ?s = "s\<lparr>timers := remove1 x (timers s), now := n\<rparr>"
  obtain rs where "timers (state_of (fire lib j ?s)) = timers ?s @ rs"
      "list_all (\<lambda>r. is_release (task r)) rs"
    using fire_timers by blast
  then show ?thesis using assms by (simp add: only_releases_def list_all_remove1)
qed



lemma run_until_releases_flag:
  assumes "only_releases w"
    and "isUpdating w \<longrightarrow> (\<exists>x\<in>set (timers w). task x = ReleaseUpdating \<and> due x \<le> t)"
  shows "\<not> isUpdating (run_until lib t w)"
proof -
  define P where "P = (\<lambda>s :: 'a manager. only_releases s \<and>
      (isUpdating s \<longrightarrow> (\<exists>x\<in>set (timers s). task x = ReleaseUpdating \<and> due x \<le> t)))"
  have "P (run_until lib t w)"
  proof (rule run_until_invariant)
    show "P w" using assms by (simp add: P_def)
  next
    fix s x assume s: "P s" and x: "x \<in> set (timers s)"
    then have rel: "is_release (task x)" by (auto simp: P_def only_releases_def list_all_iff)
    let ?s = "s\<lparr>timers := remove1 x (timers s), now := max (now s) (due x)\<rparr>"
    have o: "only_releases (state_of (fire lib (task x) ?s))"
      using s only_releases_fire[where s=s and lib=lib and j="task x" and x=x] by (simp add: P_def)
    show "P (state_of (fire lib (task x) ?s))"
    proof (cases "task x = ReleaseUpdating")
      case True
      then show ?thesis using o by (simp add: P_def)
    next
      case False
      then have t: "task x = ReleaseInternalUpdate" using rel by (simp add: is_release_def)
      have "\<And>y. y \<in> set (timers s) \<Longrightarrow> task y = ReleaseUpdating \<Longrightarrow> y \<in> set (remove1 x (timers s))"
        using t by (metis in_set_remove1 job.distinct(11))
      then show ?thesis using o s t by (auto simp: P_def)
    qed
  next
    fix s n assume "P s"
    then show "P (s\<lparr>now := n\<rparr>)" by (simp add: P_def only_releases_def)
  qed
  then show ?thesis using run_until_none_due[of lib t w] by (fastforce simp: P_def)
qed

lemmas handler_defs =
  handleCodeMirrorChange_def handleMilkdownChange_def clearTimeout_def setTimeout_def
  updateStatus_def Let_def

lemma handleCodeMirrorChange_timers:
  "\<not> isUpdating w \<Longrightarrow>
   timers (handleCodeMirrorChange c w) =
     filter (\<lambda>t. Some (tid t) \<noteq> debounceTimer w) (timers w) @
       [\<lparr>tid = nextTimer w, due = now w + syncDelay w, task = CodeMirrorSync c\<rparr>] \<and>
   debounceTimer (handleCodeMirrorChange c w) = Some (nextTimer w)"
  by (simp add: handler_defs)

lemma handleMilkdownChange_timers:
  "\<not> isUpdating w \<Longrightarrow>
   timers (handleMilkdownChange c w) =
     filter (\<lambda>t. Some (tid t) \<noteq> debounceTimer w) (timers w) @
       [\<lparr>tid = nextTimer w, due = now w + syncDelay w, task = MilkdownSync c\<rparr>] \<and>
   debounceTimer (handleMilkdownChange c w) = Some (nextTimer w)"
  by (simp add: handler_defs)

lemma handler_frame [simp]:
  "isUpdating (handleCodeMirrorChange c w) = isUpdating w"
  "lastSource (handleCodeMirrorChange c w) = lastSource w"
  "syncLog (handleCodeMirrorChange c w) = syncLog w"
  "syncDelay (handleCodeMirrorChange c w) = syncDelay w"
  "now (handleCodeMirrorChange c w) = now w"
  "codemirrorEditor (handleCodeMirrorChange c w) = codemirrorEditor w"
  "milkdownEditor (handleCodeMirrorChange c w) = milkdownEditor w"
  "isUpdating (handleMilkdownChange c w) = isUpdating w"
  "lastSource (handleMilkdownChange c w) = lastSource w"
  "syncLog (handleMilkdownChange c w) = syncLog w"
  "syncDelay (handleMilkdownChange c w) = syncDelay w"
  "now (handleMilkdownChange c w) = now w"
  by (simp_all add: handler_defs split: prod.splits)







lemma single_debounce_handleCodeMirrorChange:
  "single_debounce w \<Longrightarrow> single_debounce (handleCodeMirrorChange c w)"
proof (cases "isUpdating w")
  case True
  then show "single_debounce w \<Longrightarrow> ?thesis" by simp
next
  case False
  assume "single_debounce w"
  then show ?thesis using handleCodeMirrorChange_timers[OF False, of c]
    by (auto simp: single_debounce_def)
qed

lemma single_debounce_handleMilkdownChange:
  "single_debounce w \<Longrightarrow> single_debounce (handleMilkdownChange c w)"
proof (cases "isUpdating w")
  case True
  then show "single_debounce w \<Longrightarrow> ?thesis" by simp
next
  case False
  assume "single_debounce w"
  then show ?thesis using handleMilkdownChange_timers[OF False, of c]
    by (auto simp: single_debounce_def)
qed

lemma single_debounce_fields:
  "timers s = timers w \<Longrightarrow> debounceTimer s = debounceTimer w \<Longrightarrow>
   single_debounce w \<Longrightarrow> single_debounce s"
  by (simp add: single_debounce_def)

lemma single_debounce_fire:
  assumes "single_debounce s"
  shows "single_debounce (state_of (fire lib j (s\<lparr>timers := remove1 x (timers s), now := n\<rparr>)))"
proof -
  let ?s = "s\<lparr>timers := remove1 x (timers s), now := n\<rparr>"
  obtain rs where rs: "timers (state_of (fire lib j ?s)) = timers ?s @ rs"
      "list_all (\<lambda>r. is_release (task r)) rs"
    using fire_timers by blast
  have d: "debounceTimer (state_of (fire lib j ?s)) = debounceTimer s"
    by (simp add: fire_debounceTimer)
  have "\<And>y. y \<in> set (remove1 x (timers s)) \<Longrightarrow> y \<in> set (timers s)"
    using set_remove1_subset[of x "timers s"] by auto
  then show ?thesis using assms rs d
    by (auto simp: single_debounce_def list_all_iff)
qed


lemma single_debounce_destroy:
  assumes "single_debounce w"
  shows "only_releases (destroy w)"
  using assms by (auto simp: single_debounce_def only_releases_def destroy_def clearTimeout_def list_all_iff)

lemma only_releases_single_debounce: "only_releases w \<Longrightarrow> single_debounce w"
  by (auto simp: single_debounce_def only_releases_def list_all_iff)


lemma run_Cons: "run lib (e # evs) w = run lib evs (step lib w e)"
  by (simp add: run_def)

lemma run_Nil: "run lib [] w = w"
  by (simp add: run_def)
















lemmas script_defs =
  syncToMilkdown_def syncToMilkdown_action_def syncToCodeMirror_def syncToCodeMirror_try_def
  updated_def updateListener_def updateStatus_def Let_def

lemma syncToMilkdown_isUpdating:
  "isUpdating (state_of (syncToMilkdown lib content v)) \<longleftrightarrow> \<not> milkdownEditor v \<and> isUpdating v"
  by (simp add: script_defs split: parsed.splits option.splits prod.splits)

lemma syncToCodeMirror_isUpdating:
  "isUpdating (state_of (syncToCodeMirror lib v)) \<longleftrightarrow> \<not> codemirrorView v \<and> isUpdating v"
  by (simp add: script_defs split: parsed.splits option.splits prod.splits)

lemma syncToMilkdown_Done: "\<exists>s. syncToMilkdown lib content v = Done s"
  by (simp add: script_defs split: parsed.splits option.splits prod.splits)

lemma syncToCodeMirror_Done: "\<exists>s. syncToCodeMirror lib v = Done s"
  by (simp add: script_defs split: parsed.splits option.splits prod.splits)

lemma syncToMilkdown_parser_throws:
  assumes "parser lib content = Throws"
  shows "\<exists>s. fire_script lib (CodeMirrorChanged content) v = Done s \<and>
             mdDoc s = mdDoc v \<and> mdSelection s = mdSelection v \<and>
             (milkdownEditor v \<longrightarrow> status s = ''Sync Error'')"
  using assms by (simp add: script_defs)

lemma codeMirrorDebounced_parser_throws:
  assumes "parser lib content = Throws"
  shows "\<exists>s. fire lib (CodeMirrorSync content) w = Done s \<and>
             mdDoc s = mdDoc w \<and> mdSelection s = mdSelection w \<and>
             (lastSource w \<noteq> Some milkdown \<and> codemirrorEditor w \<and> milkdownEditor w \<longrightarrow>
                status s = ''error'')"
  using assms by (simp add: manager_defs)

lemma milkdownDebounced_identical:
  assumes "lastSource w \<noteq> Some codemirror" "codemirrorEditor w" "cmDoc w = content"
  shows "cmDoc (state_of (milkdownDebounced lib content w)) = cmDoc w"
    and "cmHead (state_of (milkdownDebounced lib content w)) = cmHead w"
    and "replaceCount (state_of (milkdownDebounced lib content w)) = replaceCount w"
  using assms by (simp_all add: manager_defs)

lemma milkdownDebounced_different:
  assumes "lastSource w \<noteq> Some codemirror" "codemirrorEditor w" "cmDoc w \<noteq> content"
  shows "cmDoc (state_of (milkdownDebounced lib content w)) = content"
    and "replaceCount (state_of (milkdownDebounced lib content w)) = replaceCount w + 1"
  using assms by (simp_all add: manager_defs)

lemma codemirror_setContent_identical: "codemirror_setContent lib (cmDoc w) w = w"
  by (simp add: codemirror_setContent_def)

lemma syncToCodeMirror_always_replaces:
  assumes "codemirrorView v" "serializer lib (mdDoc v) = Some markdown"
  shows "replaceCount (state_of (syncToCodeMirror lib v)) = replaceCount v + 1"
    and "cmDoc (state_of (syncToCodeMirror lib v)) = markdown"
  using assms by (simp_all add: script_defs split: option.splits)

lemma flag_released_after_fire:
  assumes "only_releases w"
    and "\<exists>x\<in>set (timers (state_of (fire lib j w))). task x = ReleaseUpdating \<and> due x = now w + 100"
  shows "\<not> isUpdating (run_until lib (now w + 100) (state_of (fire lib j w)))"
proof -
  have o: "only_releases (state_of (fire lib j w))"
    using only_releases_fire[where s=w and lib=lib and j=j and x="\<lparr>tid = 0, due = 0, task = j\<rparr>" and n="now w"]
      assms(1) fire_timers[of lib j w]
    by (auto simp: only_releases_def)
  show ?thesis
    by (rule run_until_releases_flag[OF o]) (use assms(2) in auto)
qed

lemma script_handler_due:
  "due (last (timers (handleCodeMirrorChange_script content v))) = now v + debounceDelay v"
  "due (last (timers (handleMilkdownChange_script v))) = now v + debounceDelay v"
  by (simp_all add: handleCodeMirrorChange_script_def handleMilkdownChange_script_def
      setTimeout_def clearTimeout_def Let_def)

lemma manager_handler_due:
  "\<not> isUpdating w \<Longrightarrow> due (last (timers (handleCodeMirrorChange content w))) = now w + syncDelay w"
  "\<not> isUpdating w \<Longrightarrow> due (last (timers (handleMilkdownChange content w))) = now w + syncDelay w"
  by (simp_all add: handler_defs)

lemma syncToCodeMirror_cursor:
  assumes "codemirrorView v" "serializer lib (mdDoc v) = Some markdown"
    "newPos (relativePos (cmHead v) (length (cmDoc v))) (length markdown) = Num (real p)"
    "p \<le> length markdown"
  shows "cmHead (state_of (syncToCodeMirror lib v)) = p"
  using assms by (simp add: script_defs js_index_def)

lemma syncToMilkdown_cursor:
  assumes "milkdownEditor v" "parser lib content = Node doc" "createAndFill lib"
    "mdSelection v = (pos, pos)"
    "newPos (relativePos pos (contentSize lib (mdDoc v))) (contentSize lib doc) = Num (real p)"
    "p \<le> contentSize lib doc"
  shows "mdSelection (state_of (syncToMilkdown lib content v)) = near lib doc p"
  using assms by (simp add: script_defs js_index_def)


lemma fire_new_timers:
  "\<exists>rs. timers (state_of (fire lib j w)) = timers w @ rs \<and>
        list_all (\<lambda>r. is_release (task r)) rs \<and>
        (\<forall>r\<in>set rs. nextTimer w \<le> tid r \<and> tid r < nextTimer (state_of (fire lib j w))) \<and>
        distinct (map tid rs) \<and> nextTimer w \<le> nextTimer (state_of (fire lib j w))"
  by (cases j)
     (simp_all add: manager_defs is_release_def split: parsed.splits option.splits)

lemma fire_isUpdating:
  "isUpdating (state_of (fire lib j w)) =
     (case j of
        CodeMirrorSync c \<Rightarrow> lastSource w \<noteq> Some milkdown \<or> isUpdating w
      | MilkdownSync c \<Rightarrow> lastSource w \<noteq> Some codemirror \<or> isUpdating w
      | ReleaseUpdating \<Rightarrow> False
      | ReleaseInternalUpdate \<Rightarrow> isUpdating w)"
  by (cases j)
     (simp_all add: manager_defs split: parsed.splits option.splits)

lemma fire_release_pending:
  "\<not> is_release j \<Longrightarrow> isUpdating (state_of (fire lib j w)) \<Longrightarrow> \<not> isUpdating w \<Longrightarrow>
   \<exists>x\<in>set (timers (state_of (fire lib j w))). task x = ReleaseUpdating \<and> due x = now w + 100"
proof (cases j)
  case (CodeMirrorSync c)
  assume "isUpdating (state_of (fire lib j w))" "\<not> isUpdating w"
  then have "lastSource w \<noteq> Some milkdown"
    using CodeMirrorSync fire_isUpdating[of lib j w] by simp
  then show ?thesis
    using CodeMirrorSync codeMirrorDebounced_release_pending[of w lib c] by simp
next
  case (MilkdownSync c)
  assume "isUpdating (state_of (fire lib j w))" "\<not> isUpdating w"
  then have "lastSource w \<noteq> Some codemirror"
    using MilkdownSync fire_isUpdating[of lib j w] by simp
  then show ?thesis
    using MilkdownSync milkdownDebounced_release_pending[of w lib c] by simp
qed (simp_all add: is_release_def)

lemma handler_nextTimer:
  "\<not> isUpdating w \<Longrightarrow> nextTimer (handleCodeMirrorChange c w) = nextTimer w + 1"
  "\<not> isUpdating w \<Longrightarrow> nextTimer (handleMilkdownChange c w) = nextTimer w + 1"
  by (simp_all add: handler_defs)

lemma orderly_handleCodeMirrorChange:
  assumes "orderly w"
  shows "orderly (handleCodeMirrorChange c w)"
proof (cases "isUpdating w")
  case True
  then show ?thesis using assms by simp
next
  case False
  have sd: "single_debounce (handleCodeMirrorChange c w)"
    using assms by (simp add: orderly_def single_debounce_handleCodeMirrorChange)
  have fg: "flag_guarded (handleCodeMirrorChange c w)"
    using False by (simp add: flag_guarded_def)
  have fi: "fresh_ids (handleCodeMirrorChange c w)"
    using assms handleCodeMirrorChange_timers[OF False, of c] handler_nextTimer(1)[OF False, of c]
    by (auto simp: orderly_def fresh_ids_def is_release_def distinct_map_filter)
  show ?thesis using sd fg fi by (simp add: orderly_def)
qed

lemma orderly_handleMilkdownChange:
  assumes "orderly w"
  shows "orderly (handleMilkdownChange c w)"
proof (cases "isUpdating w")
  case True
  then show ?thesis using assms by simp
next
  case False
  have sd: "single_debounce (handleMilkdownChange c w)"
    using assms by (simp add: orderly_def single_debounce_handleMilkdownChange)
  have fg: "flag_guarded (handleMilkdownChange c w)"
    using False by (simp add: flag_guarded_def)
  have fi: "fresh_ids (handleMilkdownChange c w)"
    using assms handleMilkdownChange_timers[OF False, of c] handler_nextTimer(2)[OF False, of c]
    by (auto simp: orderly_def fresh_ids_def is_release_def distinct_map_filter)
  show ?thesis using sd fg fi by (simp add: orderly_def)
qed

lemma orderly_fields:
  assumes "orderly w"
    and "timers s = timers w" "nextTimer s = nextTimer w" "debounceTimer s = debounceTimer w"
    and "isUpdating s = isUpdating w" "now s = now w"
  shows "orderly s"
  using assms
  by (simp add: orderly_def fresh_ids_def single_debounce_def flag_guarded_def only_releases_def)

lemma distinct_tid_remove1:
  assumes "distinct (map tid ts)" "x \<in> set ts" "y \<in> set (remove1 x ts)"
  shows "tid y \<noteq> tid x"
proof -
  have "distinct ts" using assms(1) by (rule distinct_map[THEN iffD1, THEN conjunct1])
  then have "y \<noteq> x" "y \<in> set ts" using assms(3) by auto
  then show ?thesis using assms(1,2) by (auto simp: distinct_map inj_on_def)
qed

lemma orderly_fire:
  assumes "orderly s" "x \<in> set (timers s)"
  shows "orderly (state_of (fire lib (task x)
           (s\<lparr>timers := remove1 x (timers s), now := max (now s) (due x)\<rparr>)))"
proof -
  define s1 where "s1 = s\<lparr>timers := remove1 x (timers s), now := max (now s) (due x)\<rparr>"
  define s2 where "s2 = state_of (fire lib (task x) s1)"
  have s1: "timers s1 = remove1 x (timers s)" "nextTimer s1 = nextTimer s"
      "debounceTimer s1 = debounceTimer s" "isUpdating s1 = isUpdating s"
      "now s1 = max (now s) (due x)"
    by (simp_all add: s1_def)
  obtain rs where rs0: "timers s2 = timers s1 @ rs"
      "list_all (\<lambda>r. is_release (task r)) rs"
      "\<forall>r\<in>set rs. nextTimer s1 \<le> tid r \<and> tid r < nextTimer s2"
      "distinct (map tid rs)" "nextTimer s1 \<le> nextTimer s2"
    unfolding s2_def using fire_new_timers[of lib "task x" s1] by blast
  have rs: "timers s2 = remove1 x (timers s) @ rs"
      "\<forall>r\<in>set rs. is_release (task r)"
      "\<forall>r\<in>set rs. nextTimer s \<le> tid r \<and> tid r < nextTimer s2"
      "distinct (map tid rs)" "nextTimer s \<le> nextTimer s2"
    using rs0 s1 by (simp_all add: list_all_iff)
  have d: "debounceTimer s2 = debounceTimer s"
    unfolding s2_def using s1 by (simp add: fire_debounceTimer)
  have n: "now s2 = max (now s) (due x)"
    unfolding s2_def using s1 by (simp add: fire_now)
  have sub: "\<And>y. y \<in> set (remove1 x (timers s)) \<Longrightarrow> y \<in> set (timers s)"
    using set_remove1_subset[of x "timers s"] by auto
  have f: "distinct (map tid (timers s))" "\<forall>y\<in>set (timers s). tid y < nextTimer s"
      "\<forall>h. debounceTimer s = Some h \<longrightarrow> h < nextTimer s"
      "\<forall>y\<in>set (timers s). is_release (task y) \<longrightarrow> debounceTimer s \<noteq> Some (tid y)"
    and sd: "single_debounce s" and fg: "flag_guarded s"
    using assms(1) by (simp_all add: orderly_def fresh_ids_def)
  have dist: "distinct (map tid (remove1 x (timers s)))"
    using f(1) by (simp add: distinct_map inj_on_def)
  have fi: "fresh_ids s2"
    unfolding fresh_ids_def
  proof (intro conjI)
    have "\<And>a b. a \<in> set (remove1 x (timers s)) \<Longrightarrow> b \<in> set rs \<Longrightarrow> tid a \<noteq> tid b"
      using sub f(2) rs(3) by fastforce
    then show "distinct (map tid (timers s2))"
      using rs(1,4) dist by auto
    show "\<forall>y\<in>set (timers s2). tid y < nextTimer s2"
      using rs(1,3,5) f(2) sub by fastforce
    show "\<forall>h. debounceTimer s2 = Some h \<longrightarrow> h < nextTimer s2"
    proof (intro allI impI)
      fix h assume "debounceTimer s2 = Some h"
      then have "h < nextTimer s" using f(3) d by simp
      then show "h < nextTimer s2" using rs(5) by simp
    qed
    show "\<forall>y\<in>set (timers s2). is_release (task y) \<longrightarrow> debounceTimer s2 \<noteq> Some (tid y)"
    proof (intro ballI impI)
      fix y assume y: "y \<in> set (timers s2)" "is_release (task y)"
      show "debounceTimer s2 \<noteq> Some (tid y)"
      proof (cases "y \<in> set rs")
        case True
        then have "nextTimer s \<le> tid y" using rs(3) by simp
        moreover have "\<And>h. debounceTimer s = Some h \<Longrightarrow> h < nextTimer s" using f(3) by simp
        ultimately show ?thesis using d by (metis not_less)
      next
        case False
        then have "y \<in> set (timers s)" using y(1) rs(1) sub by auto
        then show ?thesis using f(4) y(2) d by simp
      qed
    qed
  qed
  have sd2: "single_debounce s2"
    unfolding s2_def s1_def using sd by (rule single_debounce_fire)
  have fg2: "flag_guarded s2"
  proof (cases "is_release (task x)")
    case True
    show ?thesis
    proof (cases "task x = ReleaseUpdating")
      case True
      then show ?thesis by (simp add: flag_guarded_def s2_def)
    next
      case False
      then have t: "task x = ReleaseInternalUpdate" using True by (simp add: is_release_def)
      have iu: "isUpdating s2 = isUpdating s" using t s1 by (simp add: s2_def)
      have tm: "timers s2 = remove1 x (timers s)" using t s1 by (simp add: s2_def)
      show ?thesis
      proof (cases "isUpdating s")
        case False
        then show ?thesis using iu by (simp add: flag_guarded_def)
      next
        case True
        then obtain y where y: "only_releases s" "y \<in> set (timers s)" "task y = ReleaseUpdating"
            "due y \<le> now s + 100"
          using fg by (auto simp: flag_guarded_def)
        have "y \<in> set (remove1 x (timers s))"
          using y(2,3) t by (metis in_set_remove1 job.distinct(11))
        moreover have "only_releases s2"
          using y(1) tm by (simp add: only_releases_def list_all_remove1)
        ultimately show ?thesis using y(3,4) tm n
          by (auto simp: flag_guarded_def)
      qed
    qed
  next
    case False
    then have notupd: "\<not> isUpdating s1"
      using fg assms(2) s1 by (auto simp: flag_guarded_def only_releases_def list_all_iff)
    have only: "\<forall>y\<in>set (remove1 x (timers s)). is_release (task y)"
    proof
      fix y assume y: "y \<in> set (remove1 x (timers s))"
      then have ys: "y \<in> set (timers s)" using sub by simp
      show "is_release (task y)"
      proof (rule ccontr)
        assume "\<not> is_release (task y)"
        then have "debounceTimer s = Some (tid y)" using sd ys by (simp add: single_debounce_def)
        moreover have "debounceTimer s = Some (tid x)"
          using sd assms(2) False by (simp add: single_debounce_def)
        ultimately have "tid y = tid x" by simp
        moreover have "tid y \<noteq> tid x"
          using distinct_tid_remove1[of "timers s" x y] f(1) assms(2) y by simp
        ultimately show False by simp
      qed
    qed
    have o2: "only_releases s2"
      using only rs(1,2) by (auto simp: only_releases_def list_all_iff)
    show ?thesis
    proof (cases "isUpdating s2")
      case False
      then show ?thesis by (simp add: flag_guarded_def)
    next
      case True
      then have "\<exists>y\<in>set (timers s2). task y = ReleaseUpdating \<and> due y = now s1 + 100"
        unfolding s2_def using fire_release_pending[OF False, of lib s1] notupd by simp
      then show ?thesis using o2 n s1(5) by (auto simp: flag_guarded_def)
    qed
  qed
  show ?thesis using fi sd2 fg2 by (simp add: orderly_def s2_def s1_def)
qed

lemma orderly_clock:
  "orderly s \<Longrightarrow> orderly (s\<lparr>now := max (now s) t\<rparr>)"
  by (auto simp: orderly_def fresh_ids_def single_debounce_def flag_guarded_def only_releases_def)

lemma orderly_run_until:
  assumes "orderly w"
  shows "orderly (run_until lib t w)"
proof (rule run_until_invariant_clock)
  show "orderly w" by (rule assms)
next
  fix s :: "'a manager" and x assume "orderly s" "x \<in> set (timers s)"
  then show "orderly (state_of (fire lib (task x)
      (s\<lparr>timers := remove1 x (timers s), now := max (now s) (due x)\<rparr>)))"
    by (rule orderly_fire)
next
  fix s :: "'a manager" assume "orderly s"
  then show "orderly (s\<lparr>now := max (now s) t\<rparr>)" by (rule orderly_clock)
qed

lemma orderly_destroy:
  assumes "orderly w"
  shows "orderly (destroy w)"
proof -
  have t: "timers (destroy w) = filter (\<lambda>t. Some (tid t) \<noteq> debounceTimer w) (timers w)"
    and f: "nextTimer (destroy w) = nextTimer w" "debounceTimer (destroy w) = debounceTimer w"
      "isUpdating (destroy w) = isUpdating w" "now (destroy w) = now w"
    by (simp_all add: destroy_def clearTimeout_def)
  have "fresh_ids (destroy w)"
    using assms t f by (auto simp: orderly_def fresh_ids_def distinct_map_filter)
  moreover have "single_debounce (destroy w)"
    using assms by (simp add: orderly_def single_debounce_destroy only_releases_single_debounce)
  moreover have "flag_guarded (destroy w)"
  proof (cases "isUpdating w")
    case False
    then show ?thesis using f by (simp add: flag_guarded_def)
  next
    case True
    then obtain y where y: "only_releases w" "y \<in> set (timers w)" "task y = ReleaseUpdating"
        "due y \<le> now w + 100"
      using assms by (auto simp: orderly_def flag_guarded_def)
    have "debounceTimer w \<noteq> Some (tid y)"
      using assms y(2,3) by (simp add: orderly_def fresh_ids_def is_release_def)
    then have "y \<in> set (timers (destroy w))" using y(2) t by auto
    moreover have "only_releases (destroy w)"
      using y(1) t by (simp add: only_releases_def list_all_iff)
    ultimately show ?thesis using y(3,4) f by (auto simp: flag_guarded_def)
  qed
  ultimately show ?thesis by (simp add: orderly_def)
qed

lemma orderly_step:
  assumes "orderly w"
  shows "orderly (step lib w e)"
proof (cases e)
  case (TypeInCodeMirror c h)
  have "orderly (w\<lparr>cmDoc := c, cmHead := h\<rparr>)"
    using assms by (rule orderly_fields) simp_all
  then show ?thesis using TypeInCodeMirror by (simp add: orderly_handleCodeMirrorChange)
next
  case (EditInMilkdown d sel)
  have "orderly (w\<lparr>mdDoc := d, mdSelection := sel\<rparr>)"
    using assms by (rule orderly_fields) simp_all
  then show ?thesis using EditInMilkdown
    by (simp add: milkdown_docChanged_def markdownUpdated_def orderly_handleMilkdownChange
        split: option.splits)
next
  case (Wait d)
  then show ?thesis using assms by (simp add: orderly_run_until)
next
  case Destroy
  then show ?thesis using assms by (simp add: orderly_destroy)
qed

lemma orderly_run: "orderly w \<Longrightarrow> orderly (run lib evs w)"
  by (induction evs arbitrary: w) (simp_all add: run_Cons run_Nil orderly_step)

lemma orderly_init: "orderly (init (SyncManager cmText head doc sel))"
  by (simp add: orderly_def fresh_ids_def single_debounce_def flag_guarded_def init_def
      SyncManager_def)

lemma orderly_flag_clears:
  assumes "orderly s" "isUpdating s"
  shows "\<not> isUpdating (run_until lib (now s + 100) s)"
proof -
  have "only_releases s"
      "\<exists>x\<in>set (timers s). task x = ReleaseUpdating \<and> due x \<le> now s + 100"
    using assms by (auto simp: orderly_def flag_guarded_def)
  then show ?thesis by (intro run_until_releases_flag) simp_all
qed

lemma codeMirrorDebounced_cursor:
  assumes "lastSource w \<noteq> Some milkdown" "codemirrorEditor w" "milkdownEditor w"
    "cmHead w \<le> length content" "parser lib content = Node doc"
  shows "mdSelection (state_of (codeMirrorDebounced lib content w)) =
           near lib doc (min (cmHead w) (contentSize lib doc))"
proof -
  have "calculateApproximatePosition content (int (cmHead w)) = int (cmHead w)"
    using assms(4) by (intro calc_pos_in_range) simp_all
  then show ?thesis
    using assms by (simp add: manager_defs min_def split: option.splits)
qed

section \<open>The claims\<close>





text \<open>
  C3, as stated, fails for the SyncManager class: when the parser throws, the debounced
  callback completes without raising, and \<open>isUpdating\<close> is still set when it returns.
\<close>

theorem flag_held_after_failed_sync:
  "parser plain_library ''!'' = Throws \<and>
   fire plain_library (CodeMirrorSync ''!'') (init (SyncManager ''!'' 1 [] (0, 0))) =
     Done (state_of (fire plain_library (CodeMirrorSync ''!'') (init (SyncManager ''!'' 1 [] (0, 0))))) \<and>
   isUpdating (state_of (fire plain_library (CodeMirrorSync ''!'') (init (SyncManager ''!'' 1 [] (0, 0)))))"
  by (simp add: manager_defs init_def SyncManager_def plain_library_def)

text \<open>
  C3, amended. For every input, also when the parser or the serializer throws:
  \<open>syncToMilkdown\<close> and \<open>syncToCodeMirror\<close> of the page script return with \<open>isUpdating\<close>
  false whenever they start an attempt (the flag is reset in their \<open>finally\<close> block); the
  debounced callbacks of the SyncManager class return with \<open>isUpdating\<close> set and with the
  release scheduled by their \<open>finally\<close> block, and 100 ms after the attempt the flag is
  false. In every state the class can reach, a flag that is set is clear after 100 ms
  without input: the sync core is never wedged.
\<close>

theorem flag_released_by_cleanup:
  "(isUpdating (state_of (syncToMilkdown lib content v)) \<longleftrightarrow> \<not> milkdownEditor v \<and> isUpdating v) \<and>
   (isUpdating (state_of (syncToCodeMirror lib v)) \<longleftrightarrow> \<not> codemirrorView v \<and> isUpdating v) \<and>
   (lastSource w \<noteq> Some milkdown \<and> only_releases w \<longrightarrow>
      isUpdating (state_of (fire lib (CodeMirrorSync content) w)) \<and>
      \<not> isUpdating (run_until lib (now w + 100) (state_of (fire lib (CodeMirrorSync content) w)))) \<and>
   (lastSource w \<noteq> Some codemirror \<and> only_releases w \<longrightarrow>
      isUpdating (state_of (fire lib (MilkdownSync content) w)) \<and>
      \<not> isUpdating (run_until lib (now w + 100) (state_of (fire lib (MilkdownSync content) w)))) \<and>
   (isUpdating (run lib evs (init (SyncManager cmText head doc sel))) \<longrightarrow>
      \<not> isUpdating (run lib (evs @ [Wait 100]) (init (SyncManager cmText head doc sel))))"
proof (intro conjI impI)
  show "isUpdating (state_of (syncToMilkdown lib content v)) \<longleftrightarrow> \<not> milkdownEditor v \<and> isUpdating v"
    by (rule syncToMilkdown_isUpdating)
  show "isUpdating (state_of (syncToCodeMirror lib v)) \<longleftrightarrow> \<not> codemirrorView v \<and> isUpdating v"
    by (rule syncToCodeMirror_isUpdating)
next
  assume a: "lastSource w \<noteq> Some milkdown \<and> only_releases w"
  then show "isUpdating (state_of (fire lib (CodeMirrorSync content) w))"
    by (simp add: codeMirrorDebounced_isUpdating)
  show "\<not> isUpdating (run_until lib (now w + 100) (state_of (fire lib (CodeMirrorSync content) w)))"
    using a codeMirrorDebounced_release_pending[of w lib content]
    by (intro flag_released_after_fire) simp_all
next
  assume a: "lastSource w \<noteq> Some codemirror \<and> only_releases w"
  then show "isUpdating (state_of (fire lib (MilkdownSync content) w))"
    by (simp add: milkdownDebounced_isUpdating)
  show "\<not> isUpdating (run_until lib (now w + 100) (state_of (fire lib (MilkdownSync content) w)))"
    using a milkdownDebounced_release_pending[of w lib content]
    by (intro flag_released_after_fire) simp_all
next
  let ?s = "run lib evs (init (SyncManager cmText head doc sel))"
  assume u: "isUpdating ?s"
  have "orderly ?s" using orderly_init by (rule orderly_run)
  then have "\<not> isUpdating (run_until lib (now ?s + 100) ?s)"
    using u by (rule orderly_flag_clears)
  then show "\<not> isUpdating (run lib (evs @ [Wait 100]) (init (SyncManager cmText head doc sel)))"
    by (simp add: run_def)
qed

theorem flag_released_by_cleanup_witness:
  "parser plain_library ''!'' = Throws \<and>
   lastSource (init (SyncManager ''!'' 1 [] (0, 0)) :: string manager) \<noteq> Some milkdown \<and>
   only_releases (init (SyncManager ''!'' 1 [] (0, 0)) :: string manager) \<and>
   isUpdating (state_of (fire plain_library (CodeMirrorSync ''!'') (init (SyncManager ''!'' 1 [] (0, 0))))) \<and>
   \<not> isUpdating (run_until plain_library (now (init (SyncManager ''!'' 1 [] (0, 0)) :: string manager) + 100)
        (state_of (fire plain_library (CodeMirrorSync ''!'') (init (SyncManager ''!'' 1 [] (0, 0)))))) \<and>
   milkdownEditor (initialize (syncManager ''!'' 1 [] (0, 0)) :: string script) \<and>
   \<not> isUpdating (state_of (syncToMilkdown plain_library ''!'' (initialize (syncManager ''!'' 1 [] (0, 0))))) \<and>
   isUpdating (run plain_library [TypeInCodeMirror ''!'' 1, Wait 500] (init (SyncManager [] 0 [] (0, 0)))) \<and>
   \<not> isUpdating (run plain_library ([TypeInCodeMirror ''!'' 1, Wait 500] @ [Wait 100])
        (init (SyncManager [] 0 [] (0, 0))))"
proof -
  have r: "isUpdating (run plain_library [TypeInCodeMirror ''!'' 1, Wait 500] (init (SyncManager [] 0 [] (0, 0))))"
    by code_simp
  let ?w = "init (SyncManager ''!'' 1 [] (0, 0)) :: string manager"
  let ?v = "initialize (syncManager ''!'' 1 [] (0, 0)) :: string script"
  have h: "lastSource ?w \<noteq> Some milkdown \<and> only_releases ?w"
    by (simp add: init_def SyncManager_def only_releases_def)
  have m: "milkdownEditor ?v" by (simp add: initialize_def syncManager_def)
  have p: "parser plain_library ''!'' = Throws" by (simp add: plain_library_def)
  show ?thesis
    using flag_released_by_cleanup[where lib=plain_library and content="''!''" and w="?w" and v="?v"
        and evs="[TypeInCodeMirror ''!'' 1, Wait 500]" and cmText="[]" and head=0 and doc="[]"
        and sel="(0, 0)"]
      h m p r
    by blast
qed

text \<open>
  C4. No debounced callback of the SyncManager class raises to the timer that calls it,
  and neither does the debounced callback of the page script that runs \<open>syncToMilkdown\<close>.
  If the parser throws on the content, the callback completes, the Milkdown document and
  selection are those from before the attempt, and the status shows the error.
\<close>

theorem parser_failure_is_contained:
  "(\<exists>s. fire lib job w = Done s) \<and>
   (\<exists>s. fire_script lib (CodeMirrorChanged content) v = Done s) \<and>
   (parser lib content = Throws \<longrightarrow>
     (\<exists>s. fire lib (CodeMirrorSync content) w = Done s \<and>
          mdDoc s = mdDoc w \<and> mdSelection s = mdSelection w \<and>
          (lastSource w \<noteq> Some milkdown \<and> codemirrorEditor w \<and> milkdownEditor w \<longrightarrow>
             status s = ''error'')) \<and>
     (\<exists>s. fire_script lib (CodeMirrorChanged content) v = Done s \<and>
          mdDoc s = mdDoc v \<and> mdSelection s = mdSelection v \<and>
          (milkdownEditor v \<longrightarrow> status s = ''Sync Error'')))"
proof (intro conjI impI)
  show "\<exists>s. fire lib job w = Done s" by (rule fire_Done)
  show "\<exists>s. fire_script lib (CodeMirrorChanged content) v = Done s"
    using syncToMilkdown_Done[of lib content v] by auto
next
  assume t: "parser lib content = Throws"
  show "\<exists>s. fire lib (CodeMirrorSync content) w = Done s \<and>
          mdDoc s = mdDoc w \<and> mdSelection s = mdSelection w \<and>
          (lastSource w \<noteq> Some milkdown \<and> codemirrorEditor w \<and> milkdownEditor w \<longrightarrow>
             status s = ''error'')"
    using t by (rule codeMirrorDebounced_parser_throws)
  show "\<exists>s. fire_script lib (CodeMirrorChanged content) v = Done s \<and>
          mdDoc s = mdDoc v \<and> mdSelection s = mdSelection v \<and>
          (milkdownEditor v \<longrightarrow> status s = ''Sync Error'')"
    using t by (rule syncToMilkdown_parser_throws)
qed

theorem parser_failure_is_contained_witness:
  "parser plain_library ''!'' = Throws \<and>
   (\<exists>s. fire plain_library (CodeMirrorSync ''!'') (init (SyncManager ''!'' 1 ''old'' (2, 2))) = Done s \<and>
        mdDoc s = ''old'' \<and> mdSelection s = (2, 2) \<and> status s = ''error'') \<and>
   (\<exists>s. fire_script plain_library (CodeMirrorChanged ''!'') (initialize (syncManager ''!'' 1 ''old'' (2, 2))) = Done s \<and>
        mdDoc s = ''old'' \<and> mdSelection s = (2, 2) \<and> status s = ''Sync Error'')"
proof -
  let ?w = "init (SyncManager ''!'' 1 ''old'' (2, 2)) :: string manager"
  let ?v = "initialize (syncManager ''!'' 1 ''old'' (2, 2)) :: string script"
  have p: "parser plain_library ''!'' = Throws" by (simp add: plain_library_def)
  have w: "lastSource ?w \<noteq> Some milkdown \<and> codemirrorEditor ?w \<and> milkdownEditor ?w"
      "mdDoc ?w = ''old''" "mdSelection ?w = (2, 2)"
    by (simp_all add: init_def SyncManager_def)
  have v: "milkdownEditor ?v" "mdDoc ?v = ''old''" "mdSelection ?v = (2, 2)"
    by (simp_all add: initialize_def syncManager_def)
  show ?thesis
    using parser_failure_is_contained[where lib=plain_library and content="''!''" and w="?w" and v="?v"]
      p w v
    by (metis (no_types, lifting))
qed

text \<open>
  C5. For fractions \<open>relativeFrom\<close> and \<open>relativeTo\<close> in [0, 1] and any new content size,
  the offsets \<open>Math.min(Math.round(relative * newDocSize), newDocSize)\<close> are integers
  between 0 and the new content size; the rounding and the clamp give such an integer
  for every non-negative product, however the multiplication rounds it. The fraction of offset 5 in a 10-unit document is
  1/2 and is restored in a 20-unit document as offset 10: \<open>syncToCodeMirror\<close> moves a
  cursor at 5 of 10 characters to 10 of 20, and \<open>syncToMilkdown\<close> asks for the selection
  near position 10.
\<close>

theorem restored_offsets_within_new_size:
  "(0 \<le> relativeFrom \<and> relativeFrom \<le> 1 \<and> 0 \<le> relativeTo \<and> relativeTo \<le> 1 \<longrightarrow>
      (\<exists>newFrom newTo.
          newPos (Num relativeFrom) newContentSize = Num (of_int newFrom) \<and>
          newPos (Num relativeTo) newContentSize = Num (of_int newTo) \<and>
          0 \<le> newFrom \<and> newFrom \<le> int newContentSize \<and>
          0 \<le> newTo \<and> newTo \<le> int newContentSize)) \<and>
   (0 \<le> product \<longrightarrow>
      (\<exists>k. js_min (js_round (Num product)) newContentSize = Num (of_int k) \<and>
           0 \<le> k \<and> k \<le> int newContentSize)) \<and>
   relativePos 5 10 = Num (1 / 2) \<and>
   newPos (relativePos 5 10) 20 = Num 10 \<and>
   (codemirrorView v \<and> cmHead v = 5 \<and> length (cmDoc v) = 10 \<and>
    serializer lib (mdDoc v) = Some markdown \<and> length markdown = 20 \<longrightarrow>
      cmHead (state_of (syncToCodeMirror lib v)) = 10) \<and>
   (milkdownEditor v \<and> createAndFill lib \<and> mdSelection v = (5, 5) \<and>
    contentSize lib (mdDoc v) = 10 \<and> parser lib content = Node doc \<and> contentSize lib doc = 20 \<longrightarrow>
      mdSelection (state_of (syncToMilkdown lib content v)) = near lib doc 10)"
proof -
  have ex: "newPos (relativePos 5 10) 20 = Num 10"
    by (simp add: newPos_def relativePos_def js_div_def)
  have half: "relativePos 5 10 = Num (1 / 2)"
    by (simp add: relativePos_def js_div_def)
  have bounds: "0 \<le> relativeFrom \<and> relativeFrom \<le> 1 \<and> 0 \<le> relativeTo \<and> relativeTo \<le> 1 \<longrightarrow>
      (\<exists>newFrom newTo.
          newPos (Num relativeFrom) newContentSize = Num (of_int newFrom) \<and>
          newPos (Num relativeTo) newContentSize = Num (of_int newTo) \<and>
          0 \<le> newFrom \<and> newFrom \<le> int newContentSize \<and>
          0 \<le> newTo \<and> newTo \<le> int newContentSize)"
  proof
    assume a: "0 \<le> relativeFrom \<and> relativeFrom \<le> 1 \<and> 0 \<le> relativeTo \<and> relativeTo \<le> 1"
    obtain i where i: "newPos (Num relativeFrom) newContentSize = Num (of_int i)"
        "0 \<le> i" "i \<le> int newContentSize"
      using newPos_bounds[of relativeFrom newContentSize] a by blast
    obtain j where j: "newPos (Num relativeTo) newContentSize = Num (of_int j)"
        "0 \<le> j" "j \<le> int newContentSize"
      using newPos_bounds[of relativeTo newContentSize] a by blast
    show "\<exists>newFrom newTo.
          newPos (Num relativeFrom) newContentSize = Num (of_int newFrom) \<and>
          newPos (Num relativeTo) newContentSize = Num (of_int newTo) \<and>
          0 \<le> newFrom \<and> newFrom \<le> int newContentSize \<and>
          0 \<le> newTo \<and> newTo \<le> int newContentSize"
      using i j by blast
  qed
  have cm: "codemirrorView v \<and> cmHead v = 5 \<and> length (cmDoc v) = 10 \<and>
      serializer lib (mdDoc v) = Some markdown \<and> length markdown = 20 \<longrightarrow>
      cmHead (state_of (syncToCodeMirror lib v)) = 10"
    using syncToCodeMirror_cursor[of v lib markdown 10] ex by simp
  have md: "milkdownEditor v \<and> createAndFill lib \<and> mdSelection v = (5, 5) \<and>
      contentSize lib (mdDoc v) = 10 \<and> parser lib content = Node doc \<and> contentSize lib doc = 20 \<longrightarrow>
      mdSelection (state_of (syncToMilkdown lib content v)) = near lib doc 10"
    using syncToMilkdown_cursor[of v lib content doc 5 10] ex by simp
  have clamp: "0 \<le> product \<longrightarrow>
      (\<exists>k. js_min (js_round (Num product)) newContentSize = Num (of_int k) \<and>
           0 \<le> k \<and> k \<le> int newContentSize)"
    using clamp_bounds[of product newContentSize] by blast
  show ?thesis using bounds clamp half ex cm md by blast
qed

theorem restored_offsets_within_new_size_witness:
  "newPos (Num (1 / 3)) 7 = Num 2 \<and> newPos (Num 1) 7 = Num 7 \<and>
   (\<exists>newFrom newTo.
      newPos (Num (1 / 3)) 7 = Num (of_int newFrom) \<and> newPos (Num 1) 7 = Num (of_int newTo) \<and>
      0 \<le> newFrom \<and> newFrom \<le> 7 \<and> 0 \<le> newTo \<and> newTo \<le> 7) \<and>
   js_min (js_round (Num (15 / 2))) 7 = Num 7 \<and>
   cmHead (initialize (syncManager ''0123456789'' 5 ''abcdefghijklmnopqrst'' (0, 0)) :: string script) = 5 \<and>
   cmHead (state_of (syncToCodeMirror plain_library
      (initialize (syncManager ''0123456789'' 5 ''abcdefghijklmnopqrst'' (0, 0))))) = 10 \<and>
   mdSelection (state_of (syncToMilkdown plain_library ''abcdefghijklmnopqrst''
      (initialize (syncManager ''abcdefghijklmnopqrst'' 0 ''0123456789'' (5, 5))))) = (10, 10)"
proof -
  let ?v = "initialize (syncManager ''0123456789'' 5 ''abcdefghijklmnopqrst'' (0, 0)) :: string script"
  let ?u = "initialize (syncManager ''abcdefghijklmnopqrst'' 0 ''0123456789'' (5, 5)) :: string script"
  have v: "newPos (Num (1 / 3)) 7 = Num 2" "newPos (Num 1) 7 = Num 7"
      "js_min (js_round (Num (15 / 2))) 7 = Num 7"
    by (simp_all add: newPos_def)
  have hv: "codemirrorView ?v \<and> cmHead ?v = 5 \<and> length (cmDoc ?v) = 10 \<and>
      serializer plain_library (mdDoc ?v) = Some ''abcdefghijklmnopqrst'' \<and>
      length ''abcdefghijklmnopqrst'' = 20"
    by (simp add: initialize_def syncManager_def plain_library_def)
  have hu: "milkdownEditor ?u \<and> createAndFill plain_library \<and> mdSelection ?u = (5, 5) \<and>
      contentSize plain_library (mdDoc ?u) = 10 \<and>
      parser plain_library ''abcdefghijklmnopqrst'' = Node ''abcdefghijklmnopqrst'' \<and>
      contentSize plain_library ''abcdefghijklmnopqrst'' = 20"
    by (simp add: initialize_def syncManager_def plain_library_def)
  have n: "near plain_library ''abcdefghijklmnopqrst'' 10 = (10, 10)"
    by (simp add: plain_library_def)
  have a: "cmHead (state_of (syncToCodeMirror plain_library ?v)) = 10"
    using restored_offsets_within_new_size[where relativeFrom="1 / 3" and relativeTo=1
        and newContentSize=7 and product="15 / 2" and v="?v" and lib=plain_library
        and markdown="''abcdefghijklmnopqrst''" and content="''abcdefghijklmnopqrst''"
        and doc="''abcdefghijklmnopqrst''"] hv by blast
  have b: "mdSelection (state_of (syncToMilkdown plain_library ''abcdefghijklmnopqrst'' ?u)) = (10, 10)"
    using restored_offsets_within_new_size[where relativeFrom="1 / 3" and relativeTo=1
        and newContentSize=7 and product="15 / 2" and v="?u" and lib=plain_library
        and markdown="''abcdefghijklmnopqrst''" and content="''abcdefghijklmnopqrst''"
        and doc="''abcdefghijklmnopqrst''"] hu n by simp
  have c: "\<exists>newFrom newTo.
      newPos (Num (1 / 3)) 7 = Num (of_int newFrom) \<and> newPos (Num 1) 7 = Num (of_int newTo) \<and>
      0 \<le> newFrom \<and> newFrom \<le> 7 \<and> 0 \<le> newTo \<and> newTo \<le> 7"
  proof -
    have r: "(0::real) \<le> 1 / 3 \<and> (1::real) / 3 \<le> 1 \<and> (0::real) \<le> 1 \<and> (1::real) \<le> 1" by simp
    show ?thesis
      using restored_offsets_within_new_size[where relativeFrom="1 / 3" and relativeTo=1
          and newContentSize=7 and product="15 / 2" and v="?v" and lib=plain_library
          and markdown="''abcdefghijklmnopqrst''" and content="''abcdefghijklmnopqrst''"
          and doc="''abcdefghijklmnopqrst''"] r by simp
  qed
  show ?thesis using v a b c hv by simp
qed

text \<open>
  C6. Capturing a position as a fraction of a content size of 0 gives the fraction 0; the
  quotient is computed only under the guard, so the result is always a finite number
  (never the NaN or Infinity of a division by zero), and for a non-empty document it is
  the quotient itself.
\<close>

theorem empty_document_fraction_zero:
  "relativePos from 0 = Num 0 \<and> relativePos to 0 = Num 0 \<and>
   relativePos pos docSize \<noteq> NaN \<and> relativePos pos docSize \<noteq> PosInf \<and>
   js_div 0 0 = NaN \<and> js_div (Suc from) 0 = PosInf \<and>
   (0 < docSize \<longrightarrow> relativePos pos docSize = Num (real pos / real docSize))"
  by (simp add: relativePos_def js_div_def)

theorem empty_document_fraction_zero_witness:
  "0 < (4::nat) \<and> relativePos 3 4 = Num (3 / 4)"
  using empty_document_fraction_zero[of 0 0 3 4] by simp

text \<open>
  C7, as stated, fails: \<open>syncToCodeMirror\<close> of the page script makes no comparison and
  dispatches the replacement also when the serialized text is the text of the view; and
  the callback of the SyncManager class, which does skip the replacement, returns with
  \<open>isUpdating\<close> still set.
\<close>

theorem page_sync_replaces_identical_text:
  "serializer plain_library (mdDoc (initialize (syncManager ''same'' 2 ''same'' (0, 0)) :: string script)) =
     Some (cmDoc (initialize (syncManager ''same'' 2 ''same'' (0, 0)) :: string script)) \<and>
   replaceCount (initialize (syncManager ''same'' 2 ''same'' (0, 0)) :: string script) = 0 \<and>
   replaceCount (state_of (syncToCodeMirror plain_library
      (initialize (syncManager ''same'' 2 ''same'' (0, 0))))) = 1 \<and>
   cmDoc (init (SyncManager ''same'' 2 ''same'' (0, 0)) :: string manager) = ''same'' \<and>
   isUpdating (state_of (fire plain_library (MilkdownSync ''same'')
      (init (SyncManager ''same'' 2 ''same'' (0, 0)))))"
  by (simp add: script_defs milkdownDebounced_def milkdownDebounced_try_def
      codemirror_setContent_def codemirror_setCursorPosition_def setTimeout_def
      initialize_def syncManager_def init_def SyncManager_def
      plain_library_def newPos_def relativePos_def js_div_def js_index_def)

text \<open>
  C7, amended. In the sync from Milkdown to CodeMirror of the SyncManager class, the
  markdown is compared with the text of the CodeMirror view. When they are identical no
  replacement is dispatched and the cursor is not adjusted: text, cursor and the count of
  replacements are untouched (\<open>setContent\<close> of the facade makes the same comparison); the
  \<open>finally\<close> block still schedules the release of \<open>isUpdating\<close>, which is false 100 ms
  later. When they differ the text is replaced once. \<open>syncToCodeMirror\<close> of the page
  script always dispatches the replacement and returns with \<open>isUpdating\<close> false.
\<close>

theorem identical_text_is_not_replaced:
  "(lastSource w \<noteq> Some codemirror \<and> codemirrorEditor w \<and> cmDoc w = content \<longrightarrow>
      cmDoc (state_of (fire lib (MilkdownSync content) w)) = cmDoc w \<and>
      cmHead (state_of (fire lib (MilkdownSync content) w)) = cmHead w \<and>
      replaceCount (state_of (fire lib (MilkdownSync content) w)) = replaceCount w \<and>
      isUpdating (state_of (fire lib (MilkdownSync content) w)) \<and>
      (only_releases w \<longrightarrow>
         \<not> isUpdating (run_until lib (now w + 100) (state_of (fire lib (MilkdownSync content) w))))) \<and>
   codemirror_setContent lib (cmDoc w) w = w \<and>
   (lastSource w \<noteq> Some codemirror \<and> codemirrorEditor w \<and> cmDoc w \<noteq> content \<longrightarrow>
      cmDoc (state_of (fire lib (MilkdownSync content) w)) = content \<and>
      replaceCount (state_of (fire lib (MilkdownSync content) w)) = replaceCount w + 1) \<and>
   (codemirrorView v \<and> serializer lib (mdDoc v) = Some markdown \<longrightarrow>
      cmDoc (state_of (syncToCodeMirror lib v)) = markdown \<and>
      replaceCount (state_of (syncToCodeMirror lib v)) = replaceCount v + 1 \<and>
      \<not> isUpdating (state_of (syncToCodeMirror lib v)))"
proof (intro conjI impI)
  assume a: "lastSource w \<noteq> Some codemirror \<and> codemirrorEditor w \<and> cmDoc w = content"
  then show "cmDoc (state_of (fire lib (MilkdownSync content) w)) = cmDoc w"
      "cmHead (state_of (fire lib (MilkdownSync content) w)) = cmHead w"
      "replaceCount (state_of (fire lib (MilkdownSync content) w)) = replaceCount w"
    by (simp_all add: milkdownDebounced_identical)
  show "isUpdating (state_of (fire lib (MilkdownSync content) w))"
    using a by (simp add: milkdownDebounced_isUpdating)
  assume o: "only_releases w"
  show "\<not> isUpdating (run_until lib (now w + 100) (state_of (fire lib (MilkdownSync content) w)))"
    using a o milkdownDebounced_release_pending[of w lib content]
    by (intro flag_released_after_fire) simp_all
next
  show "codemirror_setContent lib (cmDoc w) w = w" by (rule codemirror_setContent_identical)
next
  assume "lastSource w \<noteq> Some codemirror \<and> codemirrorEditor w \<and> cmDoc w \<noteq> content"
  then show "cmDoc (state_of (fire lib (MilkdownSync content) w)) = content"
      "replaceCount (state_of (fire lib (MilkdownSync content) w)) = replaceCount w + 1"
    by (simp_all add: milkdownDebounced_different)
next
  assume a: "codemirrorView v \<and> serializer lib (mdDoc v) = Some markdown"
  then show "cmDoc (state_of (syncToCodeMirror lib v)) = markdown"
      "replaceCount (state_of (syncToCodeMirror lib v)) = replaceCount v + 1"
    using syncToCodeMirror_always_replaces[of v lib markdown] by simp_all
  show "\<not> isUpdating (state_of (syncToCodeMirror lib v))"
    using a by (simp add: syncToCodeMirror_isUpdating)
qed

theorem identical_text_is_not_replaced_witness:
  "lastSource (init (SyncManager ''same'' 2 ''same'' (0, 0)) :: string manager) \<noteq> Some codemirror \<and>
   codemirrorEditor (init (SyncManager ''same'' 2 ''same'' (0, 0)) :: string manager) \<and>
   cmDoc (init (SyncManager ''same'' 2 ''same'' (0, 0)) :: string manager) = ''same'' \<and>
   only_releases (init (SyncManager ''same'' 2 ''same'' (0, 0)) :: string manager) \<and>
   replaceCount (state_of (fire plain_library (MilkdownSync ''same'')
      (init (SyncManager ''same'' 2 ''same'' (0, 0))))) = 0 \<and>
   cmHead (state_of (fire plain_library (MilkdownSync ''same'')
      (init (SyncManager ''same'' 2 ''same'' (0, 0))))) = 2 \<and>
   \<not> isUpdating (run_until plain_library 100 (state_of (fire plain_library (MilkdownSync ''same'')
      (init (SyncManager ''same'' 2 ''same'' (0, 0)))))) \<and>
   cmDoc (state_of (fire plain_library (MilkdownSync ''other'')
      (init (SyncManager ''same'' 2 ''same'' (0, 0))))) = ''other'' \<and>
   replaceCount (state_of (fire plain_library (MilkdownSync ''other'')
      (init (SyncManager ''same'' 2 ''same'' (0, 0))))) = 1"
proof -
  let ?w = "init (SyncManager ''same'' 2 ''same'' (0, 0)) :: string manager"
  have h: "lastSource ?w \<noteq> Some codemirror" "codemirrorEditor ?w" "cmDoc ?w = ''same''"
      "only_releases ?w" "replaceCount ?w = 0" "cmHead ?w = 2" "now ?w = 0" "cmDoc ?w \<noteq> ''other''"
    by (simp_all add: init_def SyncManager_def only_releases_def)
  show ?thesis
    using identical_text_is_not_replaced[where w="?w" and content="''same''" and lib=plain_library
        and v="initialize (syncManager ''same'' 2 ''same'' (0, 0))" and markdown="''same''"]
      identical_text_is_not_replaced[where w="?w" and content="''other''" and lib=plain_library
        and v="initialize (syncManager ''same'' 2 ''same'' (0, 0))" and markdown="''same''"]
      h
    by simp
qed

text \<open>
  C8, as stated, fails for the SyncManager class: its constructor sets \<open>syncDelay\<close> to 500,
  and a notification at time 0 schedules the sync for time 500.
\<close>

theorem class_delay_is_500:
  "syncDelay (SyncManager [] 0 ''doc'' (0, 0)) = 500 \<and>
   now (init (SyncManager [] 0 ''doc'' (0, 0))) = 0 \<and>
   map due (timers (handleCodeMirrorChange ''a'' (init (SyncManager [] 0 ''doc'' (0, 0))))) = [500]"
  by (simp add: handler_defs init_def SyncManager_def)

text \<open>
  C8, amended. The quiet period is a field that the handlers read when they schedule the
  sync: \<open>debounceDelay\<close> of the page script, 300 by default, and \<open>syncDelay\<close> of the
  SyncManager class, 500 by default. The timer a handler schedules is due that many
  milliseconds after the notification, whatever value the field holds.
\<close>

theorem debounce_delay_defaults:
  "debounceDelay (syncManager cmText head doc sel) = 300 \<and>
   syncDelay (SyncManager cmText head doc sel) = 500 \<and>
   due (last (timers (handleCodeMirrorChange_script content v))) = now v + debounceDelay v \<and>
   due (last (timers (handleMilkdownChange_script v))) = now v + debounceDelay v \<and>
   (\<not> isUpdating w \<longrightarrow>
      due (last (timers (handleCodeMirrorChange content w))) = now w + syncDelay w \<and>
      due (last (timers (handleMilkdownChange content w))) = now w + syncDelay w)"
  by (simp add: script_handler_due manager_handler_due syncManager_def SyncManager_def)

theorem debounce_delay_defaults_witness:
  "\<not> isUpdating ((init (SyncManager [] 0 ''doc'' (0, 0)))\<lparr>syncDelay := 250\<rparr>) \<and>
   due (last (timers (handleCodeMirrorChange ''a''
      ((init (SyncManager [] 0 ''doc'' (0, 0)))\<lparr>syncDelay := 250\<rparr>)))) = 250 \<and>
   due (last (timers (handleCodeMirrorChange_script ''a''
      (initialize (syncManager [] 0 ''doc'' (0, 0)))))) = 300"
proof -
  let ?w = "(init (SyncManager [] 0 ''doc'' (0, 0)))\<lparr>syncDelay := 250\<rparr> :: string manager"
  let ?v = "initialize (syncManager [] 0 ''doc'' (0, 0)) :: string script"
  have h: "\<not> isUpdating ?w" "now ?w = 0" "syncDelay ?w = 250" "now ?v = 0" "debounceDelay ?v = 300"
    by (simp_all add: init_def SyncManager_def initialize_def syncManager_def)
  show ?thesis
    using debounce_delay_defaults[where w="?w" and v="?v" and content="''a''"
        and cmText="[]" and head=0 and doc="''doc''" and sel="(0, 0)"] h
    by simp
qed




text \<open>
  C10. For every content and every position from 0 to the content's length,
  \<open>calculateApproximatePosition\<close> returns the position itself, and for any position at
  all its result is at most the content's length. So the position that the sync from
  CodeMirror to Milkdown passes to \<open>setCursorPosition\<close> is the character offset of the
  CodeMirror cursor, unchanged (and then capped by the size of the new document).
\<close>

theorem approximate_position_is_identity:
  "(0 \<le> position \<and> position \<le> int (length content) \<longrightarrow>
      calculateApproximatePosition content position = position) \<and>
   calculateApproximatePosition content anyPosition \<le> int (length content) \<and>
   (lastSource w \<noteq> Some milkdown \<and> codemirrorEditor w \<and> milkdownEditor w \<and>
    cmHead w \<le> length content \<and> parser lib content = Node doc \<longrightarrow>
      mdSelection (state_of (fire lib (CodeMirrorSync content) w)) =
        near lib doc (min (cmHead w) (contentSize lib doc)))"
  using calc_pos_in_range[of position content] calc_pos_bound[of content anyPosition]
    codeMirrorDebounced_cursor[of w content lib doc]
  by simp

theorem approximate_position_is_identity_witness:
  "(0::int) \<le> 4 \<and> 4 \<le> int (length (''ab'' @ [CHR 0x0A] @ ''cd'')) \<and>
   calculateApproximatePosition (''ab'' @ [CHR 0x0A] @ ''cd'') 4 = 4 \<and>
   cmHead (init (SyncManager (''ab'' @ [CHR 0x0A] @ ''cd'') 4 [] (0, 0)) :: string manager) = 4 \<and>
   mdSelection (state_of (fire plain_library (CodeMirrorSync (''ab'' @ [CHR 0x0A] @ ''cd''))
      (init (SyncManager (''ab'' @ [CHR 0x0A] @ ''cd'') 4 [] (0, 0))))) = (4, 4)"
proof -
  let ?c = "''ab'' @ [CHR 0x0A] @ ''cd''"
  let ?w = "init (SyncManager ?c 4 [] (0, 0)) :: string manager"
  have h: "(0::int) \<le> 4 \<and> 4 \<le> int (length ?c)" by simp
  have g: "lastSource ?w \<noteq> Some milkdown \<and> codemirrorEditor ?w \<and> milkdownEditor ?w \<and>
      cmHead ?w \<le> length ?c \<and> parser plain_library ?c = Node ?c"
    by (simp add: init_def SyncManager_def plain_library_def)
  have n: "near plain_library ?c (min (cmHead ?w) (contentSize plain_library ?c)) = (4, 4)"
      "cmHead ?w = 4"
    by (simp_all add: init_def SyncManager_def plain_library_def)
  show ?thesis
    using approximate_position_is_identity[where position=4 and content="?c" and anyPosition=0
        and w="?w" and lib=plain_library and doc="?c"] h g n
    by simp
qed

end
